theory Spec2Isabelle
  imports Main
begin

section \<open>Python values and strings\<close>

text \<open>
  The exporter reads a game record (the decoded JSON answer of the game service), builds
  a \<open>Game\<close> from it (\<open>create_game_from_json\<close> in \<open>game_exporter.py\<close>) and renders the
  game as text (\<open>Game.to_console\<close> in \<open>data_models.py\<close>).

  A Python string is modelled by the list of its code points, one \<open>char\<close> each, for
  code points below 256; every string the two source files write down is of that kind,
  except the twelve chess piece glyphs, which stand here as the three bytes of their
  UTF-8 form (no operation of the source looks inside them). JSON numbers are integers,
  as in the records of the game service.

  Every exception the source can raise is a value of \<open>error\<close>, and a function that can
  raise returns \<open>error + 'a\<close>.
\<close>

datatype error = KeyError | IndexError | TypeError | AttributeError | ValueError

datatype json =
    JNull
  | JBool bool
  | JInt int
  | JStr string
  | JArr "json list"
  | JObj "(string \<times> json) list"

text \<open>Sequencing of two steps, the second of which runs only when the first did not raise.\<close>

definition andthen :: "error + 'a \<Rightarrow> ('a \<Rightarrow> error + 'b) \<Rightarrow> error + 'b" where
  "andthen m f = (case m of Inl e \<Rightarrow> Inl e | Inr x \<Rightarrow> f x)"

subsection \<open>String operations\<close>

text \<open>\<open>s.startswith(p)\<close> and \<open>p in s\<close>.\<close>

fun startswith :: "string \<Rightarrow> string \<Rightarrow> bool" where
  "startswith s [] = True"
| "startswith [] (p # ps) = False"
| "startswith (c # cs) (p # ps) = (c = p \<and> startswith cs ps)"

fun contains :: "string \<Rightarrow> string \<Rightarrow> bool" where
  "contains p [] = (p = [])"
| "contains p (c # cs) = (startswith (c # cs) p \<or> contains p cs)"

text \<open>\<open>s.split(sep)\<close> for a separator of one character: never an empty list.\<close>

fun split_on :: "char \<Rightarrow> string \<Rightarrow> string list" where
  "split_on sep [] = [[]]"
| "split_on sep (c # cs) =
     (if c = sep then [] # split_on sep cs
      else (case split_on sep cs of
              [] \<Rightarrow> [[c]]
            | w # ws \<Rightarrow> (c # w) # ws))"

text \<open>\<open>sep.join(xs)\<close>.\<close>

fun join :: "string \<Rightarrow> string list \<Rightarrow> string" where
  "join sep [] = []"
| "join sep [x] = x"
| "join sep (x # y # ys) = x @ sep @ join sep (y # ys)"

text \<open>\<open>s.replace(old, new)\<close> for an \<open>old\<close> of one character.\<close>

definition replace_chr :: "char \<Rightarrow> string \<Rightarrow> string \<Rightarrow> string" where
  "replace_chr old new s = concat (map (\<lambda>c. if c = old then new else [c]) s)"


text \<open>
  Case mapping: \<open>s.upper()\<close> and \<open>s.capitalize()\<close> (the first character in title case,
  the others in lower case), for every code point below 256. The capital letters of
  \<open>\<mu>\<close> (code point 181) and of \<open>y\<close> with diaeresis (code point 255) lie outside
  that range and stand as the bytes of their UTF-8 form; the sharp s (code point 223)
  becomes \<open>SS\<close> in upper case and \<open>Ss\<close> in title case.
\<close>

definition upper_chr :: "char \<Rightarrow> string" where
  "upper_chr c =
     (let n = (of_char c :: nat) in
      if 97 \<le> n \<and> n \<le> 122 then [char_of (n - 32)]
      else if n = 181 then [CHR 0xCE, CHR 0x9C]
      else if n = 223 then ''SS''
      else if n = 247 then [c]
      else if 224 \<le> n \<and> n \<le> 254 then [char_of (n - 32)]
      else if n = 255 then [CHR 0xC5, CHR 0xB8]
      else [c])"

definition title_chr :: "char \<Rightarrow> string" where
  "title_chr c = (if (of_char c :: nat) = 223 then ''Ss'' else upper_chr c)"

definition lower_chr :: "char \<Rightarrow> char" where
  "lower_chr c =
     (let n = (of_char c :: nat) in
      if 65 \<le> n \<and> n \<le> 90 then char_of (n + 32)
      else if n = 215 then c
      else if 192 \<le> n \<and> n \<le> 222 then char_of (n + 32)
      else c)"

definition upper :: "string \<Rightarrow> string" where
  "upper s = concat (map upper_chr s)"

fun capitalize :: "string \<Rightarrow> string" where
  "capitalize [] = []"
| "capitalize (c # cs) = title_chr c @ map lower_chr cs"

text \<open>\<open>str(n)\<close> for an integer, and the paddings of the format specifications
  \<open>:<w\<close> and \<open>:>w\<close>.\<close>

fun str_nat :: "nat \<Rightarrow> string" where
  "str_nat n =
     (if n < 10 then [char_of (48 + n)]
      else str_nat (n div 10) @ [char_of (48 + n mod 10)])"

declare str_nat.simps [simp del]

definition str_int :: "int \<Rightarrow> string" where
  "str_int i = (if i < 0 then CHR ''-'' # str_nat (nat (- i)) else str_nat (nat i))"

definition ljust :: "nat \<Rightarrow> string \<Rightarrow> string" where
  "ljust w s = s @ replicate (w - length s) CHR '' ''"

definition rjust :: "nat \<Rightarrow> string \<Rightarrow> string" where
  "rjust w s = replicate (w - length s) CHR '' '' @ s"

subsection \<open>Operations on decoded JSON\<close>

text \<open>\<open>d[key]\<close> with a string key: a missing key of a dict raises KeyError, any other
  value raises TypeError.\<close>

fun py_getitem :: "json \<Rightarrow> string \<Rightarrow> error + json" where
  "py_getitem (JObj kvs) k = (case map_of kvs k of None \<Rightarrow> Inl KeyError | Some v \<Rightarrow> Inr v)"
| "py_getitem _ k = Inl TypeError"

text \<open>\<open>d.get(key, default)\<close>: only a dict has the method.\<close>

fun py_get :: "json \<Rightarrow> string \<Rightarrow> json \<Rightarrow> error + json" where
  "py_get (JObj kvs) k d = Inr (case map_of kvs k of None \<Rightarrow> d | Some v \<Rightarrow> v)"
| "py_get _ k d = Inl AttributeError"

text \<open>\<open>xs[i]\<close> with an index \<open>i \<ge> 0\<close>.\<close>

fun py_index :: "json \<Rightarrow> nat \<Rightarrow> error + json" where
  "py_index (JArr xs) i = (if i < length xs then Inr (xs ! i) else Inl IndexError)"
| "py_index (JStr s) i = (if i < length s then Inr (JStr [s ! i]) else Inl IndexError)"
| "py_index (JObj kvs) i = Inl KeyError"
| "py_index _ i = Inl TypeError"

fun py_len :: "json \<Rightarrow> error + nat" where
  "py_len (JArr xs) = Inr (length xs)"
| "py_len (JStr s) = Inr (length s)"
| "py_len (JObj kvs) = Inr (length kvs)"
| "py_len _ = Inl TypeError"

text \<open>Truth value of a decoded JSON value.\<close>

fun py_truthy :: "json \<Rightarrow> bool" where
  "py_truthy JNull = False"
| "py_truthy (JBool b) = b"
| "py_truthy (JInt i) = (i \<noteq> 0)"
| "py_truthy (JStr s) = (s \<noteq> [])"
| "py_truthy (JArr xs) = (xs \<noteq> [])"
| "py_truthy (JObj kvs) = (kvs \<noteq> [])"


text \<open>\<open>a - b\<close>: defined on two numbers, where a Boolean counts as 0 or 1.\<close>

fun py_num :: "json \<Rightarrow> int option" where
  "py_num (JInt i) = Some i"
| "py_num (JBool b) = Some (if b then 1 else 0)"
| "py_num _ = None"

definition py_sub :: "json \<Rightarrow> json \<Rightarrow> error + int" where
  "py_sub a b =
     (case py_num a of
        None \<Rightarrow> Inl TypeError
      | Some x \<Rightarrow> (case py_num b of None \<Rightarrow> Inl TypeError | Some y \<Rightarrow> Inr (x - y)))"

text \<open>\<open>s.split(" ")\<close>: only a string has the method.\<close>

fun py_split :: "json \<Rightarrow> error + string list" where
  "py_split (JStr s) = Inr (split_on CHR '' '' s)"
| "py_split _ = Inl AttributeError"

subsection \<open>The serialised record\<close>

text \<open>
  \<open>json.dumps\<close> with its defaults: items separated by a comma and a space, keys from
  values by a colon and a space, strings in double quotes with every character outside
  the printable ASCII range escaped.
\<close>

definition hex_digit :: "nat \<Rightarrow> char" where
  "hex_digit d = (if d < 10 then char_of (48 + d) else char_of (87 + d))"

definition escape_chr :: "char \<Rightarrow> string" where
  "escape_chr c =
     (let n = (of_char c :: nat); backslash = CHR 0x5C in
      if n = 34 then [backslash, c]
      else if n = 92 then [backslash, c]
      else if n = 10 then [backslash, CHR ''n'']
      else if n = 13 then [backslash, CHR ''r'']
      else if n = 9 then [backslash, CHR ''t'']
      else if n = 8 then [backslash, CHR ''b'']
      else if n = 12 then [backslash, CHR ''f'']
      else if n < 32 \<or> 126 < n
        then backslash # ''u00'' @ [hex_digit (n div 16), hex_digit (n mod 16)]
      else [c])"

definition quote :: "string \<Rightarrow> string" where
  "quote s = CHR 0x22 # concat (map escape_chr s) @ [CHR 0x22]"

primrec dumps :: "json \<Rightarrow> string" where
  "dumps JNull = ''null''"
| "dumps (JBool b) = (if b then ''true'' else ''false'')"
| "dumps (JInt i) = str_int i"
| "dumps (JStr s) = quote s"
| "dumps (JArr xs) = ''['' @ join '', '' (map dumps xs) @ '']''"
| "dumps (JObj kvs) =
     ''{'' @ join '', '' (map (\<lambda>kv. quote (fst kv) @ '': '' @ snd kv)
                              (map (map_prod id dumps) kvs)) @ ''}''"

section \<open>The data model (\<open>data_models.py\<close>)\<close>

text \<open>
  The records of this section are the dataclasses with every field at the type of its
  annotation: the games \<open>to_console\<close> is written for. What the parser stores in
  the fields, without a check, is modelled with the parser.
\<close>

datatype Color = WHITE | BLACK

fun color_value :: "Color \<Rightarrow> string" where
  "color_value WHITE = ''white''"
| "color_value BLACK = ''black''"

record Clock =
  initial :: int
  increment :: int
  total_time :: int

text \<open>The field \<open>end\<close> of \<open>Division\<close> is \<open>end_ply\<close> here; the parser stores \<open>None\<close> for a
  boundary the record does not give.\<close>

record Division =
  middle :: "int option"
  end_ply :: "int option"

record Opening =
  eco :: string
  opening_name :: string
  ply :: int

record PlayerGameAnalysis =
  inaccuracy :: int
  mistake :: int
  blunder :: int
  acpl :: int

record User =
  user_name :: string
  user_id :: string

record Player =
  color :: Color
  user :: User
  rating :: int
  rating_diff :: int
  player_analysis :: PlayerGameAnalysis

record Judgment =
  judgment_name :: "string option"
  comment :: "string option"

record MoveAnalysis =
  eval :: "int option"
  mate :: "int option"
  best :: "string option"
  variation :: "string option"
  judgement :: "Judgment option"

record Move =
  san :: string
  clock_centosec :: int
  thinking_time_centoseconds :: int
  analysis :: MoveAnalysis

text \<open>
  A pair of the move list is a tuple \<open>(move_white, move_black)\<close>; the parser's loop can
  put \<open>None\<close> in either place as far as the types go, so both are optional here. The
  field \<open>id\<close> of \<open>Game\<close> is \<open>game_id\<close> and its field \<open>opening\<close> is \<open>game_opening\<close>.
\<close>

record Game =
  game_id :: string
  rated :: bool
  variant :: string
  speed :: string
  perf :: string
  created_at :: int
  last_move_at :: int
  status :: string
  source :: string
  players :: "Player list"
  winner :: "Color option"
  moves :: "(Move option \<times> Move option) list"
  clock :: Clock
  division :: Division
  game_opening :: Opening
  has_analysis :: bool

subsection \<open>Default values of the dataclasses\<close>


definition MoveAnalysis_default :: MoveAnalysis where
  "MoveAnalysis_default =
     \<lparr>eval = None, mate = None, best = None, variation = None, judgement = None\<rparr>"

definition Move_default :: Move where
  "Move_default =
     \<lparr>san = [], clock_centosec = 0, thinking_time_centoseconds = 0,
      analysis = MoveAnalysis_default\<rparr>"

text \<open>\<open>MoveAnalysis.__bool__\<close>: true when any field is set.\<close>

definition MoveAnalysis_bool :: "MoveAnalysis \<Rightarrow> bool" where
  "MoveAnalysis_bool a =
     (\<not> (eval a = None \<and> mate a = None \<and> best a = None \<and> variation a = None
         \<and> judgement a = None))"

subsection \<open>What the model takes from outside\<close>

text \<open>
  The rules engine (the chess library), the URL quoting of the standard library and the
  two places where the source formats a floating-point number are parameters. A board
  is a position of the engine with the stack of moves played on it; a new board has an
  empty stack and every accepted move is put on top of it, in coordinate notation. A
  move the engine does not accept raises an error that is a ValueError.
\<close>

record 'p env =
  start_position :: 'p
  parse_san :: "'p \<Rightarrow> string \<Rightarrow> (string \<times> 'p) option"
  board_text :: "'p \<Rightarrow> string"
  board_fen :: "'p \<Rightarrow> string"
  quote_plus :: "string \<Rightarrow> string"
  centoseconds_to_timestr :: "int \<Rightarrow> string"
  str_div100 :: "int \<Rightarrow> string"

record 'p Board =
  position :: 'p
  move_stack :: "string list"

definition new_board :: "'p env \<Rightarrow> 'p Board" where
  "new_board E = \<lparr>position = start_position E, move_stack = []\<rparr>"

definition push_san :: "'p env \<Rightarrow> 'p Board \<Rightarrow> string \<Rightarrow> error + 'p Board" where
  "push_san E board s =
     (case parse_san E (position board) s of
        None \<Rightarrow> Inl ValueError
      | Some (uci, p) \<Rightarrow> Inr \<lparr>position = p, move_stack = move_stack board @ [uci]\<rparr>)"

subsection \<open>Methods of \<open>Move\<close>\<close>

definition format_evaluation :: "'p env \<Rightarrow> Move \<Rightarrow> string" where
  "format_evaluation E m =
     (if MoveAnalysis_bool (analysis m) then
        (case mate (analysis m) of
           Some n \<Rightarrow> '' #'' @ str_int n
         | None \<Rightarrow>
            (case eval (analysis m) of
               Some v \<Rightarrow>
                 (let out = str_div100 E v
                  in if \<not> startswith out ''-'' then '' '' @ out else out)
             | None \<Rightarrow> []))
      else [])"

definition get_decorated_move :: "Move \<Rightarrow> string" where
  "get_decorated_move m =
     (let out = san m in
      case judgement (analysis m) of
        None \<Rightarrow> out
      | Some j \<Rightarrow>
         (let out = (if judgment_name j = Some ''Inaccuracy'' then out @ ''?!'' else out);
              out = (if judgment_name j = Some ''Mistake'' then out @ ''?'' else out);
              out = (if judgment_name j = Some ''Blunder'' then out @ ''??'' else out)
          in out))"

definition move_clock :: "'p env \<Rightarrow> Move \<Rightarrow> string" where
  "move_clock E m = centoseconds_to_timestr E (clock_centosec m)"

section \<open>Rendering (\<open>Game.board_at_end\<close>, \<open>Game.to_console\<close>)\<close>

definition nl :: string where
  "nl = [CHR 0x0A]"

definition middot :: string where
  "middot = [CHR 0xB7]"

definition half :: string where
  "half = [CHR 0xBD]"

definition glyph :: "nat \<Rightarrow> string" where
  "glyph k = [CHR 0xE2, CHR 0x99, char_of (0x94 + k)]"

definition WHITE_KING :: string where "WHITE_KING = glyph 0"
definition WHITE_QUEEN :: string where "WHITE_QUEEN = glyph 1"
definition WHITE_ROOK :: string where "WHITE_ROOK = glyph 2"
definition WHITE_BISHOP :: string where "WHITE_BISHOP = glyph 3"
definition WHITE_KNIGHT :: string where "WHITE_KNIGHT = glyph 4"
definition WHITE_PAWN :: string where "WHITE_PAWN = glyph 5"
definition BLACK_KING :: string where "BLACK_KING = glyph 6"
definition BLACK_QUEEN :: string where "BLACK_QUEEN = glyph 7"
definition BLACK_ROOK :: string where "BLACK_ROOK = glyph 8"
definition BLACK_BISHOP :: string where "BLACK_BISHOP = glyph 9"
definition BLACK_KNIGHT :: string where "BLACK_KNIGHT = glyph 10"
definition BLACK_PAWN :: string where "BLACK_PAWN = glyph 11"

subsection \<open>The final position\<close>

text \<open>The loop of \<open>board_at_end\<close>: every pair pushes its white move, then its black
  move when there is one.\<close>

fun replay :: "'p env \<Rightarrow> 'p Board \<Rightarrow> (Move option \<times> Move option) list \<Rightarrow> error + 'p Board" where
  "replay E board [] = Inr board"
| "replay E board ((move_white, move_black) # rest) =
     (case move_white of
        None \<Rightarrow> Inl AttributeError
      | Some w \<Rightarrow>
         (case push_san E board (san w) of
            Inl e \<Rightarrow> Inl e
          | Inr board1 \<Rightarrow>
             (case move_black of
                None \<Rightarrow> replay E board1 rest
              | Some b \<Rightarrow>
                 (case push_san E board1 (san b) of
                    Inl e \<Rightarrow> Inl e
                  | Inr board2 \<Rightarrow> replay E board2 rest))))"

definition unicode_board :: "string \<Rightarrow> string" where
  "unicode_board board_str =
     (let board_str = replace_chr CHR ''k'' BLACK_KING board_str;
          board_str = replace_chr CHR ''q'' BLACK_QUEEN board_str;
          board_str = replace_chr CHR ''r'' BLACK_ROOK board_str;
          board_str = replace_chr CHR ''b'' BLACK_BISHOP board_str;
          board_str = replace_chr CHR ''n'' BLACK_KNIGHT board_str;
          board_str = replace_chr CHR ''p'' BLACK_PAWN board_str;
          board_str = replace_chr CHR ''K'' WHITE_KING board_str;
          board_str = replace_chr CHR ''Q'' WHITE_QUEEN board_str;
          board_str = replace_chr CHR ''R'' WHITE_ROOK board_str;
          board_str = replace_chr CHR ''B'' WHITE_BISHOP board_str;
          board_str = replace_chr CHR ''N'' WHITE_KNIGHT board_str;
          board_str = replace_chr CHR ''P'' WHITE_PAWN board_str
      in board_str)"

definition add_legend :: "string \<Rightarrow> error + string" where
  "add_legend board_str =
     (let board_lines = split_on CHR 0x0A board_str in
      if length board_lines \<le> 3 then Inl IndexError
      else
        (let board_lines =
               board_lines[3 := board_lines ! 3 @ ''   '' @ WHITE_PAWN @ '': white'']
         in if length board_lines \<le> 4 then Inl IndexError
            else
              (let board_lines =
                     board_lines[4 := board_lines ! 4 @ ''   '' @ BLACK_PAWN @ '': black'']
               in Inr (join nl board_lines))))"

definition board_at_end :: "'p env \<Rightarrow> Game \<Rightarrow> error + ('p Board \<times> string)" where
  "board_at_end E g =
     andthen (replay E (new_board E) (moves g)) (\<lambda>board.
     andthen (add_legend (unicode_board (board_text E (position board)))) (\<lambda>board_unicode.
     Inr (board, board_unicode)))"

subsection \<open>The move table\<close>

text \<open>One pass of the loop over the pairs, for a pair whose white move is there.\<close>

definition move_line :: "'p env \<Rightarrow> bool \<Rightarrow> nat \<Rightarrow> Move \<Rightarrow> Move option \<Rightarrow> string" where
  "move_line E with_analysis move_counter move_white mb =
     (let move_black = (case mb of None \<Rightarrow> Move_default | Some b \<Rightarrow> b);
          san_deco_white = get_decorated_move move_white;
          san_deco_black = get_decorated_move move_black;
          txt = rjust 3 (str_nat move_counter) @ ''. '' @ ljust 8 san_deco_white @ '' ''
                @ ljust 8 san_deco_black;
          clock_white = move_clock E move_white;
          clock_black = (if san move_black \<noteq> [] then move_clock E move_black
                         else replicate (length (move_clock E move_white)) CHR '' '');
          txt = txt @ ''   '' @ clock_white @ ''   '' @ clock_black;
          txt =
            (if with_analysis then
               (let eval_white = format_evaluation E move_white;
                    eval_black = format_evaluation E move_black;
                    txt = txt @ ''   '' @ ljust 6 eval_white @ ''  '' @ ljust 6 eval_black;
                    txt = (case judgement (analysis move_white) of
                             None \<Rightarrow> txt
                           | Some j \<Rightarrow> txt @ ''   White: ''
                                @ (case comment j of None \<Rightarrow> ''None'' | Some c \<Rightarrow> c));
                    txt = (case judgement (analysis move_black) of
                             None \<Rightarrow> txt
                           | Some j \<Rightarrow> txt @ ''   Black: ''
                                @ (case comment j of None \<Rightarrow> ''None'' | Some c \<Rightarrow> c))
                in txt)
             else txt)
      in txt @ nl)"

fun moves_txt :: "'p env \<Rightarrow> bool \<Rightarrow> nat \<Rightarrow> (Move option \<times> Move option) list \<Rightarrow> error + string" where
  "moves_txt E with_analysis move_counter [] = Inr []"
| "moves_txt E with_analysis move_counter ((move_white, move_black) # rest) =
     (case move_white of
        None \<Rightarrow> Inl AttributeError
      | Some w \<Rightarrow>
         (case moves_txt E with_analysis (Suc move_counter) rest of
            Inl e \<Rightarrow> Inl e
          | Inr txt \<Rightarrow> Inr (move_line E with_analysis move_counter w move_black @ txt)))"

subsection \<open>Scores and the result line\<close>

definition pretty_endings :: "(string \<times> string) list" where
  "pretty_endings =
     [(''draw'', ''draw''),
      (''stalemate'', ''stalemate''),
      (''mate'', ''was checkmated''),
      (''resign'', ''resigned''),
      (''outoftime'', ''ran out of time'')]"

text \<open>The three values the block "Game ending info" computes: \<open>score_white\<close>,
  \<open>score_black\<close> and \<open>game_ending\<close>.\<close>

definition game_ending_info :: "Game \<Rightarrow> error + (string \<times> string \<times> string)" where
  "game_ending_info g =
     (case winner g of
        Some c \<Rightarrow>
          (let winner_str = color_value c;
               score_white = (if c = WHITE then ''1'' else ''0'');
               score_black = (if c = WHITE then ''0'' else ''1'');
               loser_str = (if c = WHITE then color_value BLACK else color_value WHITE)
           in case map_of pretty_endings (status g) of
                None \<Rightarrow> Inl KeyError
              | Some phrase \<Rightarrow>
                  Inr (score_white, score_black,
                       capitalize winner_str @ '' wins: '' @ loser_str @ '' '' @ phrase))
      | None \<Rightarrow>
          Inr (half, half, ''The game ended with a '' @ capitalize (status g)))"

subsection \<open>Phase boundaries\<close>

definition phase_line :: "string \<Rightarrow> int \<Rightarrow> string" where
  "phase_line phase p =
     (let move_no = p div 2 + 1;
          white_or_black = (if p mod 2 = 0 then ''black'' else ''white'')
      in phase @ '' started at move '' @ str_int move_no @ '' ('' @ white_or_black @ '')'' @ nl)"

text \<open>A boundary is rendered when its value is true for Python: neither \<open>None\<close> nor 0.\<close>

definition phase_info :: "Division \<Rightarrow> string" where
  "phase_info d =
     (case middle d of
        None \<Rightarrow> []
      | Some p \<Rightarrow> (if p \<noteq> 0 then phase_line ''Middlegame'' p else []))
     @
     (case end_ply d of
        None \<Rightarrow> []
      | Some p \<Rightarrow> (if p \<noteq> 0 then phase_line ''Endgame'' p else []))"

subsection \<open>The report\<close>

definition players_summary :: "Game \<Rightarrow> Player \<Rightarrow> Player \<Rightarrow> string \<Rightarrow> string \<Rightarrow> string" where
  "players_summary g player_white player_black score_white score_black =
     (let white_player_and_rating =
            take 25 (user_name (user player_white)) @ '' ('' @ str_int (rating player_white) @ '')'';
          black_player_and_rating =
            take 25 (user_name (user player_black)) @ '' ('' @ str_int (rating player_black) @ '')'';
          gap = replicate 16 CHR '' '';
          out = ''WHITE: '' @ ljust 32 white_player_and_rating @ '' BLACK: ''
                @ black_player_and_rating @ nl;
          out = out @ ''  Score..............: '' @ score_white @ replicate 18 CHR '' ''
                @ ''Score..............: '' @ score_black @ nl;
          out = out @ ''  Rating change......: '' @ ljust 3 (str_int (rating_diff player_white))
                @ gap @ ''Rating change......: '' @ str_int (rating_diff player_black) @ nl
      in if has_analysis g then
           out
           @ ''  Inaccuracies.......: ''
           @ ljust 3 (str_int (inaccuracy (player_analysis player_white))) @ gap
           @ ''Inaccuracies.......: ''
           @ str_int (inaccuracy (player_analysis player_black)) @ nl
           @ ''  Mistakes...........: ''
           @ ljust 3 (str_int (mistake (player_analysis player_white))) @ gap
           @ ''Mistakes...........: ''
           @ str_int (mistake (player_analysis player_black)) @ nl
           @ ''  Blunders...........: ''
           @ ljust 3 (str_int (blunder (player_analysis player_white))) @ gap
           @ ''Blunders...........: ''
           @ str_int (blunder (player_analysis player_black)) @ nl
           @ ''  AvgLostCentiPawns..: ''
           @ ljust 3 (str_int (acpl (player_analysis player_white))) @ gap
           @ ''AvgLostCentiPawns..: ''
           @ str_int (acpl (player_analysis player_black)) @ nl
         else
           out @ nl @ ''This game has not been analyzed, so analysis data is unavailable.'' @ nl)"

definition header_line :: "Game \<Rightarrow> string" where
  "header_line g =
     (let time_control = str_int (initial (clock g) div 60) @ ''+'' @ str_int (increment (clock g));
          rated_str = (if rated g then ''RATED'' else ''NOT RATED'')
      in ''LICHESS.ORG '' @ middot @ '' '' @ time_control @ '' '' @ middot @ '' ''
         @ upper (speed g) @ '' '' @ middot @ '' '' @ rated_str @ nl)"

definition to_console :: "'p env \<Rightarrow> Game \<Rightarrow> error + string" where
  "to_console E g =
     (case players g of
        [player_white, player_black] \<Rightarrow>
          andthen (moves_txt E (has_analysis g) 1 (moves g)) (\<lambda>moves_text.
          andthen (game_ending_info g) (\<lambda>(score_white, score_black, game_ending).
          let out = header_line g @ nl
                @ players_summary g player_white player_black score_white score_black
                @ nl
                @ ''Opening: ['' @ eco (game_opening g) @ ''] ''
                @ opening_name (game_opening g) @ nl @ nl
                @ moves_text @ nl
                @ ''*** '' @ game_ending @ '' ***'' @ nl
                @ nl
                @ phase_info (division g)
          in
          andthen (board_at_end E g) (\<lambda>(board, board_unicode).
          case rev (move_stack board) of
            [] \<Rightarrow> Inl IndexError
          | last_move_uci # _ \<Rightarrow>
              (let fen = board_fen E (position board);
                   board_gif_url = ''GIF: https://lichess.org/export/fen.gif?fen=''
                      @ quote_plus E fen @ ''&lastMove='' @ last_move_uci
               in Inr (out @ nl @ ''Final position:'' @ nl
                       @ board_unicode @ ''   '' @ board_gif_url @ nl
                       @ nl
                       @ ''Game URL: https://lichess.org/'' @ game_id g @ nl
                       @ nl)))))
      | _ \<Rightarrow> Inl ValueError)"


section \<open>Parsing (\<open>create_game_from_json\<close>)\<close>

text \<open>
  Python does not check the annotations of a dataclass: a field holds whatever value the
  parser puts there, and the parser puts there what the record holds. The records
  \<open>Judgment_raw\<close> to \<open>Game_raw\<close> are the dataclasses as the parser fills them: every
  field taken from the record is a decoded JSON value. The notation of a move is a
  string (a part of the split move string), and the thinking time is an integer (0, or
  the result of a subtraction).
\<close>

record Clock_raw =
  raw_initial :: json
  raw_increment :: json
  raw_total_time :: json

record Division_raw =
  raw_middle :: json
  raw_end_ply :: json

record Opening_raw =
  raw_eco :: json
  raw_opening_name :: json
  raw_ply :: json

record PlayerGameAnalysis_raw =
  raw_inaccuracy :: json
  raw_mistake :: json
  raw_blunder :: json
  raw_acpl :: json

record User_raw =
  raw_user_name :: json
  raw_user_id :: json

record Player_raw =
  raw_color :: Color
  raw_user :: User_raw
  raw_rating :: json
  raw_rating_diff :: json
  raw_player_analysis :: PlayerGameAnalysis_raw

record Judgment_raw =
  raw_judgment_name :: json
  raw_comment :: json

record MoveAnalysis_raw =
  raw_eval :: json
  raw_mate :: json
  raw_best :: json
  raw_variation :: json
  raw_judgement :: "Judgment_raw option"

record Move_raw =
  raw_san :: string
  raw_clock_centosec :: json
  raw_thinking_time_centoseconds :: int
  raw_analysis :: MoveAnalysis_raw

record Game_raw =
  raw_game_id :: json
  raw_rated :: json
  raw_variant :: json
  raw_speed :: json
  raw_perf :: string
  raw_created_at :: int
  raw_last_move_at :: int
  raw_status :: json
  raw_source :: string
  raw_players :: "Player_raw list"
  raw_winner :: "Color option"
  raw_moves :: "(Move_raw option \<times> Move_raw option) list"
  raw_clock :: Clock_raw
  raw_division :: Division_raw
  raw_game_opening :: Opening_raw
  raw_has_analysis :: bool

text \<open>\<open>PlayerGameAnalysis()\<close> and \<open>MoveAnalysis()\<close>.\<close>

definition PlayerGameAnalysis_raw_default :: PlayerGameAnalysis_raw where
  "PlayerGameAnalysis_raw_default =
     \<lparr>raw_inaccuracy = JInt (- 1), raw_mistake = JInt (- 1), raw_blunder = JInt (- 1),
      raw_acpl = JInt (- 1)\<rparr>"

definition MoveAnalysis_raw_default :: MoveAnalysis_raw where
  "MoveAnalysis_raw_default =
     \<lparr>raw_eval = JNull, raw_mate = JNull, raw_best = JNull, raw_variation = JNull,
      raw_judgement = None\<rparr>"

text \<open>The analysis flag: the word \<open>analysis\<close> occurs in the serialised record.\<close>

definition analysis_flag :: "json \<Rightarrow> bool" where
  "analysis_flag json_game = contains ''analysis'' (dumps json_game)"

subsection \<open>Players\<close>

text \<open>\<open>json_player.get("analysis", {}).get(key, -1)\<close>\<close>

definition analysis_counter :: "json \<Rightarrow> string \<Rightarrow> error + json" where
  "analysis_counter json_player k =
     andthen (py_get json_player ''analysis'' (JObj [])) (\<lambda>a. py_get a k (JInt (- 1)))"

definition player_game_analysis :: "bool \<Rightarrow> json \<Rightarrow> error + PlayerGameAnalysis_raw" where
  "player_game_analysis flag json_player =
     (if flag then
        andthen (analysis_counter json_player ''inaccuracy'') (\<lambda>i.
        andthen (analysis_counter json_player ''mistake'') (\<lambda>m.
        andthen (analysis_counter json_player ''blunder'') (\<lambda>b.
        andthen (analysis_counter json_player ''acpl'') (\<lambda>a.
        Inr \<lparr>raw_inaccuracy = i, raw_mistake = m, raw_blunder = b, raw_acpl = a\<rparr>))))
      else Inr PlayerGameAnalysis_raw_default)"

definition parse_player :: "bool \<Rightarrow> Color \<Rightarrow> json \<Rightarrow> error + Player_raw" where
  "parse_player flag c json_game =
     andthen (py_getitem json_game ''players'') (\<lambda>ps.
     andthen (py_getitem ps (color_value c)) (\<lambda>json_player.
     andthen (player_game_analysis flag json_player) (\<lambda>pga.
     andthen (andthen (py_getitem json_player ''user'') (\<lambda>u. py_getitem u ''name'')) (\<lambda>n.
     andthen (andthen (py_getitem json_player ''user'') (\<lambda>u. py_getitem u ''id'')) (\<lambda>i.
     andthen (py_getitem json_player ''rating'') (\<lambda>r.
     andthen (py_getitem json_player ''ratingDiff'') (\<lambda>rd.
     Inr \<lparr>raw_color = c, raw_user = \<lparr>raw_user_name = n, raw_user_id = i\<rparr>, raw_rating = r,
          raw_rating_diff = rd, raw_player_analysis = pga\<rparr>)))))))"

subsection \<open>Moves\<close>

text \<open>\<open>moves_clocks[idx] - moves_clocks[idx - 2] if idx >= 2 else 0\<close>\<close>

definition thinking_time_cs :: "json \<Rightarrow> nat \<Rightarrow> error + int" where
  "thinking_time_cs moves_clocks idx =
     (if idx \<ge> 2 then
        andthen (py_index moves_clocks idx) (\<lambda>a.
        andthen (py_index moves_clocks (idx - 2)) (\<lambda>b.
        py_sub a b))
      else Inr 0)"

text \<open>The \<open>Judgment\<close> of an analysis entry, when its \<open>judgment\<close> field is true for
  Python.\<close>

definition parse_judgment :: "json \<Rightarrow> error + Judgment_raw option" where
  "parse_judgment entry =
     andthen (py_get entry ''judgment'' JNull) (\<lambda>j.
     if py_truthy j then
       andthen (andthen (py_getitem entry ''judgment'') (\<lambda>x. py_getitem x ''name'')) (\<lambda>n.
       andthen (andthen (py_getitem entry ''judgment'') (\<lambda>x. py_getitem x ''comment'')) (\<lambda>c.
       Inr (Some \<lparr>raw_judgment_name = n, raw_comment = c\<rparr>)))
     else Inr None)"

definition parse_move_analysis :: "bool \<Rightarrow> json \<Rightarrow> nat \<Rightarrow> error + MoveAnalysis_raw" where
  "parse_move_analysis flag moves_analyses idx =
     (if flag then
        andthen (py_len moves_analyses) (\<lambda>n.
        if idx < n then
          andthen (py_index moves_analyses idx) (\<lambda>entry.
          andthen (py_get entry ''eval'' JNull) (\<lambda>e.
          andthen (py_get entry ''mate'' JNull) (\<lambda>m.
          andthen (py_get entry ''best'' JNull) (\<lambda>b.
          andthen (py_get entry ''variation'' JNull) (\<lambda>v.
          andthen (parse_judgment entry) (\<lambda>j.
          Inr \<lparr>raw_eval = e, raw_mate = m, raw_best = b, raw_variation = v,
               raw_judgement = j\<rparr>))))))
        else Inr MoveAnalysis_raw_default)
      else Inr MoveAnalysis_raw_default)"

text \<open>The \<open>Move\<close> that one pass of the loop builds for the ply \<open>idx\<close>.\<close>

definition make_move :: "bool \<Rightarrow> json \<Rightarrow> json \<Rightarrow> nat \<Rightarrow> string \<Rightarrow> error + Move_raw" where
  "make_move flag moves_clocks moves_analyses idx move_san =
     andthen (thinking_time_cs moves_clocks idx) (\<lambda>t.
     andthen (parse_move_analysis flag moves_analyses idx) (\<lambda>move_analysis.
     andthen (py_index moves_clocks idx) (\<lambda>c.
     Inr \<lparr>raw_san = move_san, raw_clock_centosec = c, raw_thinking_time_centoseconds = t,
          raw_analysis = move_analysis\<rparr>)))"

text \<open>
  The loop over the plies. Its state is the colour to move, the white move that waits
  for its black partner, and the pairs built so far; it returns the last two.
\<close>

fun moves_loop ::
  "bool \<Rightarrow> json \<Rightarrow> json \<Rightarrow> nat \<Rightarrow> string list \<Rightarrow> Color \<Rightarrow> Move_raw option
     \<Rightarrow> (Move_raw option \<times> Move_raw option) list
     \<Rightarrow> error + (Move_raw option \<times> (Move_raw option \<times> Move_raw option) list)" where
  "moves_loop flag moves_clocks moves_analyses idx [] c move_white ms = Inr (move_white, ms)"
| "moves_loop flag moves_clocks moves_analyses idx (move_san # rest) c move_white ms =
     (case make_move flag moves_clocks moves_analyses idx move_san of
        Inl e \<Rightarrow> Inl e
      | Inr move \<Rightarrow>
          (if c = WHITE then
             moves_loop flag moves_clocks moves_analyses (Suc idx) rest BLACK (Some move) ms
           else
             moves_loop flag moves_clocks moves_analyses (Suc idx) rest WHITE None
               (ms @ [(move_white, Some move)])))"

definition parse_moves :: "bool \<Rightarrow> json \<Rightarrow> error + (Move_raw option \<times> Move_raw option) list" where
  "parse_moves flag json_game =
     andthen (andthen (py_getitem json_game ''moves'') py_split) (\<lambda>moves_sans.
     andthen (py_getitem json_game ''clocks'') (\<lambda>moves_clocks.
     andthen (py_get json_game ''analysis'' JNull) (\<lambda>moves_analyses.
     andthen (moves_loop flag moves_clocks moves_analyses 0 moves_sans WHITE None [])
       (\<lambda>(move_white, ms).
     case move_white of
       Some w \<Rightarrow> Inr (ms @ [(Some w, None)])
     | None \<Rightarrow> Inr ms))))"

subsection \<open>Game details\<close>

definition parse_opening :: "json \<Rightarrow> error + Opening_raw" where
  "parse_opening json_game =
     andthen (andthen (py_getitem json_game ''opening'') (\<lambda>x. py_get x ''eco'' (JStr []))) (\<lambda>e.
     andthen (andthen (py_getitem json_game ''opening'') (\<lambda>x. py_get x ''name'' (JStr []))) (\<lambda>n.
     andthen (andthen (py_getitem json_game ''opening'') (\<lambda>x. py_get x ''ply'' (JInt 0))) (\<lambda>p.
     Inr \<lparr>raw_eco = e, raw_opening_name = n, raw_ply = p\<rparr>)))"

definition parse_clock :: "json \<Rightarrow> error + Clock_raw" where
  "parse_clock json_game =
     andthen (andthen (py_getitem json_game ''clock'')
                (\<lambda>x. py_get x ''initial'' (JInt (- 1)))) (\<lambda>i.
     andthen (andthen (py_getitem json_game ''clock'')
                (\<lambda>x. py_get x ''increment'' (JInt (- 1)))) (\<lambda>inc.
     andthen (andthen (py_getitem json_game ''clock'')
                (\<lambda>x. py_get x ''totalTime'' (JInt (- 1)))) (\<lambda>t.
     Inr \<lparr>raw_initial = i, raw_increment = inc, raw_total_time = t\<rparr>)))"

definition parse_division :: "json \<Rightarrow> error + Division_raw" where
  "parse_division json_game =
     andthen (andthen (py_getitem json_game ''division'') (\<lambda>x. py_get x ''middle'' JNull)) (\<lambda>m.
     andthen (andthen (py_getitem json_game ''division'') (\<lambda>x. py_get x ''end'' JNull)) (\<lambda>e.
     Inr \<lparr>raw_middle = m, raw_end_ply = e\<rparr>))"

text \<open>The winner: \<open>"white"\<close> and \<open>"black"\<close> give a colour, every other value gives
  \<open>None\<close>.\<close>

definition parse_winner :: "json \<Rightarrow> Color option" where
  "parse_winner winner_str =
     (let w = None;
          w = (if winner_str = JStr ''white'' then Some WHITE else w);
          w = (if winner_str = JStr ''black'' then Some BLACK else w)
      in w)"

subsection \<open>The parser\<close>

definition create_game_from_json :: "json \<Rightarrow> error + Game_raw" where
  "create_game_from_json json_game =
     (let flag = analysis_flag json_game in
      andthen (parse_player flag WHITE json_game) (\<lambda>player_white.
      andthen (parse_player flag BLACK json_game) (\<lambda>player_black.
      andthen (parse_moves flag json_game) (\<lambda>ms.
      andthen (parse_opening json_game) (\<lambda>op.
      andthen (parse_clock json_game) (\<lambda>ck.
      andthen (parse_division json_game) (\<lambda>dv.
      andthen (py_get json_game ''id'' (JStr ''N/A'')) (\<lambda>gid.
      andthen (py_get json_game ''rated'' (JBool True)) (\<lambda>rt.
      andthen (py_get json_game ''variant'' (JStr ''N/A'')) (\<lambda>va.
      andthen (py_get json_game ''speed'' (JStr ''N/A'')) (\<lambda>sp.
      andthen (py_get json_game ''status'' (JStr ''N/A'')) (\<lambda>st.
      andthen (py_get json_game ''winner'' (JStr [])) (\<lambda>winner_str.
      Inr \<lparr>raw_game_id = gid, raw_rated = rt, raw_variant = va, raw_speed = sp,
           raw_perf = [], raw_created_at = - 1, raw_last_move_at = - 1, raw_status = st,
           raw_source = [], raw_players = [player_white, player_black],
           raw_winner = parse_winner winner_str, raw_moves = ms, raw_clock = ck,
           raw_division = dv, raw_game_opening = op, raw_has_analysis = flag\<rparr>)))))))))))))"

section \<open>A parsed game at the annotated types\<close>

text \<open>
  \<open>to_console\<close> is written for a game whose fields have the types of their annotations.
  \<open>game_typed\<close> says that every field the parser filled has the annotated type (an
  integer, a string, a Boolean, or one of these or \<open>None\<close>), and \<open>read_game\<close> reads the
  parsed game at those types.
\<close>

fun is_int :: "json \<Rightarrow> bool" where
  "is_int (JInt i) = True"
| "is_int _ = False"

fun is_str :: "json \<Rightarrow> bool" where
  "is_str (JStr s) = True"
| "is_str _ = False"

fun is_bool :: "json \<Rightarrow> bool" where
  "is_bool (JBool b) = True"
| "is_bool _ = False"

fun is_int_opt :: "json \<Rightarrow> bool" where
  "is_int_opt JNull = True"
| "is_int_opt (JInt i) = True"
| "is_int_opt _ = False"

fun is_str_opt :: "json \<Rightarrow> bool" where
  "is_str_opt JNull = True"
| "is_str_opt (JStr s) = True"
| "is_str_opt _ = False"

fun int_of :: "json \<Rightarrow> int" where
  "int_of (JInt i) = i"
| "int_of _ = 0"

fun str_of :: "json \<Rightarrow> string" where
  "str_of (JStr s) = s"
| "str_of _ = []"

fun bool_of :: "json \<Rightarrow> bool" where
  "bool_of (JBool b) = b"
| "bool_of _ = False"

fun int_opt_of :: "json \<Rightarrow> int option" where
  "int_opt_of (JInt i) = Some i"
| "int_opt_of _ = None"

fun str_opt_of :: "json \<Rightarrow> string option" where
  "str_opt_of (JStr s) = Some s"
| "str_opt_of _ = None"

definition clock_typed :: "Clock_raw \<Rightarrow> bool" where
  "clock_typed c = (is_int (raw_initial c) \<and> is_int (raw_increment c) \<and> is_int (raw_total_time c))"

definition read_clock :: "Clock_raw \<Rightarrow> Clock" where
  "read_clock c =
     \<lparr>initial = int_of (raw_initial c), increment = int_of (raw_increment c),
      total_time = int_of (raw_total_time c)\<rparr>"

definition division_typed :: "Division_raw \<Rightarrow> bool" where
  "division_typed d = (is_int_opt (raw_middle d) \<and> is_int_opt (raw_end_ply d))"

definition read_division :: "Division_raw \<Rightarrow> Division" where
  "read_division d = \<lparr>middle = int_opt_of (raw_middle d), end_ply = int_opt_of (raw_end_ply d)\<rparr>"

definition opening_typed :: "Opening_raw \<Rightarrow> bool" where
  "opening_typed p = (is_str (raw_eco p) \<and> is_str (raw_opening_name p) \<and> is_int (raw_ply p))"

definition read_opening :: "Opening_raw \<Rightarrow> Opening" where
  "read_opening p =
     \<lparr>eco = str_of (raw_eco p), opening_name = str_of (raw_opening_name p),
      ply = int_of (raw_ply p)\<rparr>"

definition player_typed :: "Player_raw \<Rightarrow> bool" where
  "player_typed p =
     (is_str (raw_user_name (raw_user p)) \<and> is_str (raw_user_id (raw_user p))
      \<and> is_int (raw_rating p) \<and> is_int (raw_rating_diff p)
      \<and> is_int (raw_inaccuracy (raw_player_analysis p))
      \<and> is_int (raw_mistake (raw_player_analysis p))
      \<and> is_int (raw_blunder (raw_player_analysis p))
      \<and> is_int (raw_acpl (raw_player_analysis p)))"

definition read_player :: "Player_raw \<Rightarrow> Player" where
  "read_player p =
     \<lparr>color = raw_color p,
      user = \<lparr>user_name = str_of (raw_user_name (raw_user p)),
              user_id = str_of (raw_user_id (raw_user p))\<rparr>,
      rating = int_of (raw_rating p), rating_diff = int_of (raw_rating_diff p),
      player_analysis =
        \<lparr>inaccuracy = int_of (raw_inaccuracy (raw_player_analysis p)),
         mistake = int_of (raw_mistake (raw_player_analysis p)),
         blunder = int_of (raw_blunder (raw_player_analysis p)),
         acpl = int_of (raw_acpl (raw_player_analysis p))\<rparr>\<rparr>"

definition judgment_typed :: "Judgment_raw \<Rightarrow> bool" where
  "judgment_typed j = (is_str_opt (raw_judgment_name j) \<and> is_str_opt (raw_comment j))"

definition read_judgment :: "Judgment_raw \<Rightarrow> Judgment" where
  "read_judgment j =
     \<lparr>judgment_name = str_opt_of (raw_judgment_name j), comment = str_opt_of (raw_comment j)\<rparr>"

definition move_typed :: "Move_raw \<Rightarrow> bool" where
  "move_typed m =
     (is_int (raw_clock_centosec m)
      \<and> is_int_opt (raw_eval (raw_analysis m)) \<and> is_int_opt (raw_mate (raw_analysis m))
      \<and> is_str_opt (raw_best (raw_analysis m)) \<and> is_str_opt (raw_variation (raw_analysis m))
      \<and> (case raw_judgement (raw_analysis m) of None \<Rightarrow> True | Some j \<Rightarrow> judgment_typed j))"

definition read_move :: "Move_raw \<Rightarrow> Move" where
  "read_move m =
     \<lparr>san = raw_san m, clock_centosec = int_of (raw_clock_centosec m),
      thinking_time_centoseconds = raw_thinking_time_centoseconds m,
      analysis =
        \<lparr>eval = int_opt_of (raw_eval (raw_analysis m)),
         mate = int_opt_of (raw_mate (raw_analysis m)),
         best = str_opt_of (raw_best (raw_analysis m)),
         variation = str_opt_of (raw_variation (raw_analysis m)),
         judgement = map_option read_judgment (raw_judgement (raw_analysis m))\<rparr>\<rparr>"

definition pair_typed :: "Move_raw option \<times> Move_raw option \<Rightarrow> bool" where
  "pair_typed p =
     ((case fst p of None \<Rightarrow> True | Some m \<Rightarrow> move_typed m)
      \<and> (case snd p of None \<Rightarrow> True | Some m \<Rightarrow> move_typed m))"

definition read_pair :: "Move_raw option \<times> Move_raw option \<Rightarrow> Move option \<times> Move option" where
  "read_pair p = (map_option read_move (fst p), map_option read_move (snd p))"

definition game_typed :: "Game_raw \<Rightarrow> bool" where
  "game_typed r =
     (is_str (raw_game_id r) \<and> is_bool (raw_rated r) \<and> is_str (raw_variant r)
      \<and> is_str (raw_speed r) \<and> is_str (raw_status r)
      \<and> list_all player_typed (raw_players r)
      \<and> list_all pair_typed (raw_moves r)
      \<and> clock_typed (raw_clock r) \<and> division_typed (raw_division r)
      \<and> opening_typed (raw_game_opening r))"

definition read_game :: "Game_raw \<Rightarrow> Game" where
  "read_game r =
     \<lparr>game_id = str_of (raw_game_id r), rated = bool_of (raw_rated r),
      variant = str_of (raw_variant r), speed = str_of (raw_speed r), perf = raw_perf r,
      created_at = raw_created_at r, last_move_at = raw_last_move_at r,
      status = str_of (raw_status r), source = raw_source r,
      players = map read_player (raw_players r), winner = raw_winner r,
      moves = map read_pair (raw_moves r), clock = read_clock (raw_clock r),
      division = read_division (raw_division r),
      game_opening = read_opening (raw_game_opening r),
      has_analysis = raw_has_analysis r\<rparr>"

section \<open>What the specification states\<close>

text \<open>The decoration of a move, by the name of its judgment.\<close>

definition decoration :: "Judgment option \<Rightarrow> string" where
  "decoration j =
     (case j of
        None \<Rightarrow> []
      | Some jd \<Rightarrow>
          (if judgment_name jd = Some ''Inaccuracy'' then ''?!''
           else if judgment_name jd = Some ''Mistake'' then ''?''
           else if judgment_name jd = Some ''Blunder'' then ''??''
           else []))"

text \<open>The two scores, by the winner, and the line of the report that shows them.\<close>

definition scores_of :: "Color option \<Rightarrow> string \<times> string" where
  "scores_of w =
     (case w of
        Some WHITE \<Rightarrow> (''1'', ''0'')
      | Some BLACK \<Rightarrow> (''0'', ''1'')
      | None \<Rightarrow> (half, half))"

definition score_line :: "string \<times> string \<Rightarrow> string" where
  "score_line sc =
     ''  Score..............: '' @ fst sc @ replicate 18 CHR '' ''
     @ ''Score..............: '' @ snd sc @ nl"

text \<open>The plies of a move list, in the order they were played.\<close>

fun plies_of :: "('a option \<times> 'a option) list \<Rightarrow> 'a option list" where
  "plies_of [] = []"
| "plies_of ((w, b) # rest) = w # (case b of None \<Rightarrow> [] | Some m \<Rightarrow> [Some m]) @ plies_of rest"

text \<open>A field named \<open>k\<close> is reachable in a record: some dict inside it has the key.\<close>

primrec has_key :: "string \<Rightarrow> json \<Rightarrow> bool" where
  "has_key k JNull = False"
| "has_key k (JBool b) = False"
| "has_key k (JInt i) = False"
| "has_key k (JStr s) = False"
| "has_key k (JArr xs) = list_ex id (map (has_key k) xs)"
| "has_key k (JObj kvs) =
     (list_ex (\<lambda>kv. fst kv = k) kvs \<or> list_ex snd (map (map_prod id (has_key k)) kvs))"

subsection \<open>Sample inputs\<close>

text \<open>
  A record as the game service sends it: two players, the moves, the clock samples, and
  the opening, clock and division blocks; \<open>extra\<close> holds further fields of the top level.
\<close>

definition sample_player :: "string \<Rightarrow> int \<Rightarrow> int \<Rightarrow> json" where
  "sample_player n r d =
     JObj [(''user'', JObj [(''name'', JStr n), (''id'', JStr n)]),
           (''rating'', JInt r), (''ratingDiff'', JInt d)]"

definition sample_record :: "string \<Rightarrow> json list \<Rightarrow> (string \<times> json) list \<Rightarrow> json" where
  "sample_record mv cl extra =
     JObj ([(''id'', JStr ''q7ZvsdUF''), (''rated'', JBool True),
            (''players'', JObj [(''white'', sample_player ''alice'' 1500 (- 5)),
                                (''black'', sample_player ''bob'' 1510 5)]),
            (''moves'', JStr mv), (''clocks'', JArr cl),
            (''opening'', JObj [(''eco'', JStr ''C40''), (''name'', JStr ''Kings Knight'')]),
            (''clock'', JObj [(''initial'', JInt 300), (''increment'', JInt 0)]),
            (''division'', JObj [])] @ extra)"

text \<open>The same record of one ply, without any analysis, for a white player whose name
  holds the word \<open>analysis\<close>.\<close>

definition fan_record :: json where
  "fan_record =
     JObj [(''id'', JStr ''q7ZvsdUF''), (''rated'', JBool True),
           (''players'', JObj [(''white'', sample_player ''analysisfan'' 1500 (- 5)),
                               (''black'', sample_player ''bob'' 1510 5)]),
           (''moves'', JStr ''e4''), (''clocks'', JArr [JInt 30000]),
           (''opening'', JObj [(''eco'', JStr ''C40''), (''name'', JStr ''Kings Knight'')]),
           (''clock'', JObj [(''initial'', JInt 300), (''increment'', JInt 0)]),
           (''division'', JObj [])]"

text \<open>A record that holds the players, the move string and the clock samples, and of
  the opening, clock and division blocks those that \<open>blocks\<close> lists.\<close>

definition blocks_record :: "(string \<times> json) list \<Rightarrow> json" where
  "blocks_record blocks =
     JObj ([(''players'', JObj [(''white'', sample_player ''alice'' 1500 (- 5)),
                                (''black'', sample_player ''bob'' 1510 5)]),
            (''moves'', JStr ''e4''), (''clocks'', JArr [JInt 30000])] @ blocks)"

text \<open>The record of a casual game of one ply: it is not rated, and its players have
  no rating change.\<close>

definition casual_record :: json where
  "casual_record =
     JObj [(''id'', JStr ''q7ZvsdUF''), (''rated'', JBool False),
           (''players'',
             JObj [(''white'', JObj [(''user'', JObj [(''name'', JStr ''alice''),
                                                     (''id'', JStr ''alice'')]),
                                    (''rating'', JInt 1500)]),
                   (''black'', JObj [(''user'', JObj [(''name'', JStr ''bob''),
                                                     (''id'', JStr ''bob'')]),
                                    (''rating'', JInt 1510)])]),
           (''moves'', JStr ''e4''), (''clocks'', JArr [JInt 30000]),
           (''opening'', JObj [(''eco'', JStr ''C40''), (''name'', JStr ''Kings Knight'')]),
           (''clock'', JObj [(''initial'', JInt 300), (''increment'', JInt 0)]),
           (''division'', JObj [])]"

text \<open>The game the parser builds from the sample record of one ply with the status
  \<open>draw\<close> and the winner \<open>White\<close>.\<close>

definition sample_parsed :: Game_raw where
  "sample_parsed =
     \<lparr>raw_game_id = JStr ''q7ZvsdUF'', raw_rated = JBool True, raw_variant = JStr ''N/A'',
      raw_speed = JStr ''N/A'', raw_perf = [], raw_created_at = - 1, raw_last_move_at = - 1,
      raw_status = JStr ''draw'', raw_source = [],
      raw_players =
        [\<lparr>raw_color = WHITE,
          raw_user = \<lparr>raw_user_name = JStr ''alice'', raw_user_id = JStr ''alice''\<rparr>,
          raw_rating = JInt 1500, raw_rating_diff = JInt (- 5),
          raw_player_analysis = PlayerGameAnalysis_raw_default\<rparr>,
         \<lparr>raw_color = BLACK,
          raw_user = \<lparr>raw_user_name = JStr ''bob'', raw_user_id = JStr ''bob''\<rparr>,
          raw_rating = JInt 1510, raw_rating_diff = JInt 5,
          raw_player_analysis = PlayerGameAnalysis_raw_default\<rparr>],
      raw_winner = None,
      raw_moves =
        [(Some \<lparr>raw_san = ''e4'', raw_clock_centosec = JInt 30000,
                 raw_thinking_time_centoseconds = 0,
                 raw_analysis = MoveAnalysis_raw_default\<rparr>, None)],
      raw_clock = \<lparr>raw_initial = JInt 300, raw_increment = JInt 0,
                   raw_total_time = JInt (- 1)\<rparr>,
      raw_division = \<lparr>raw_middle = JNull, raw_end_ply = JNull\<rparr>,
      raw_game_opening = \<lparr>raw_eco = JStr ''C40'', raw_opening_name = JStr ''Kings Knight'',
                          raw_ply = JInt 0\<rparr>,
      raw_has_analysis = False\<rparr>"

text \<open>An engine that accepts every move that is not the empty string, for running the
  renderer: a position is the number of moves played.\<close>

definition sample_env :: "nat env" where
  "sample_env =
     \<lparr>start_position = 0,
      parse_san = (\<lambda>p s. if s = [] then None else Some (s, Suc p)),
      board_text = (\<lambda>p. join nl (replicate 8 ''.'')),
      board_fen = (\<lambda>p. ''8/8/8/8/8/8/8/8''),
      quote_plus = (\<lambda>s. s),
      centoseconds_to_timestr = (\<lambda>i. str_int i),
      str_div100 = (\<lambda>i. str_int i)\<rparr>"


subsection \<open>The state of the parser's loop\<close>

text \<open>The white move that waits for its partner, as a list of plies; and a pair that
  holds both its moves.\<close>

fun pending :: "'a option \<Rightarrow> 'a option list" where
  "pending None = []"
| "pending (Some w) = [Some w]"

definition full_pair :: "'a option \<times> 'a option \<Rightarrow> bool" where
  "full_pair p = (fst p \<noteq> None \<and> snd p \<noteq> None)"

section \<open>Properties\<close>

subsection \<open>Sequencing\<close>

lemma andthen_Inr [simp]: "andthen (Inr x) f = f x"
  by (simp add: andthen_def)

lemma andthen_Inl [simp]: "andthen (Inl e) f = Inl e"
  by (simp add: andthen_def)

lemma andthen_eq_Inr: "andthen m f = Inr y \<longleftrightarrow> (\<exists>x. m = Inr x \<and> f x = Inr y)"
  by (cases m) simp_all

subsection \<open>Decoration of a move\<close>

text \<open>
  C9. The decorated move is the raw notation followed by the suffix of its judgment:
  \<open>?!\<close> for an inaccuracy, \<open>?\<close> for a mistake, \<open>??\<close> for a blunder (the names as the
  game service writes them, with a capital letter), and nothing for any other name or
  for no judgment. The notation itself is read once and left as it is.
\<close>

theorem decorated_move_suffix:
  "get_decorated_move m = san m @ decoration (judgement (analysis m))"
  by (simp add: get_decorated_move_def decoration_def Let_def split: option.split)

theorem decorated_move_suffix_witness:
  "get_decorated_move
     (Move_default\<lparr>san := ''Qxf7'',
        analysis := MoveAnalysis_default
          \<lparr>judgement := Some \<lparr>judgment_name = Some ''Blunder'', comment = None\<rparr>\<rparr>\<rparr>)
   = ''Qxf7??''"
  using decorated_move_suffix
    [of "Move_default\<lparr>san := ''Qxf7'',
        analysis := MoveAnalysis_default
          \<lparr>judgement := Some \<lparr>judgment_name = Some ''Blunder'', comment = None\<rparr>\<rparr>\<rparr>"]
  by (simp add: decoration_def Move_default_def MoveAnalysis_default_def)

subsection \<open>Scores and the result line\<close>



lemma game_ending_scores:
  "game_ending_info g = Inr (sw, sb, ge) \<Longrightarrow> (sw, sb) = scores_of (winner g)"
  by (auto simp: game_ending_info_def scores_of_def Let_def split: option.splits Color.splits)





lemma players_summary_score:
  "\<exists>pre post. players_summary g pw pb sw sb = pre @ score_line (sw, sb) @ post"
  apply (simp only: players_summary_def Let_def score_line_def fst_conv snd_conv split: if_split)
  apply (intro conjI impI)
   apply (metis append.assoc)
  apply (metis append.assoc)
  done

lemma to_console_scores:
  assumes "to_console E g = Inr out"
  shows "\<exists>pre post. out = pre @ score_line (scores_of (winner g)) @ post"
proof -
  from assms obtain pw pb where ps: "players g = [pw, pb]"
    by (auto simp: to_console_def split: list.splits)
  from assms ps obtain mt where mt: "moves_txt E (has_analysis g) 1 (moves g) = Inr mt"
    by (cases "moves_txt E (has_analysis g) 1 (moves g)") (simp_all add: to_console_def)
  from assms ps mt obtain sw sb ge where ge: "game_ending_info g = Inr (sw, sb, ge)"
    by (cases "game_ending_info g") (auto simp add: to_console_def)
  from assms ps mt ge obtain b bu where be: "board_at_end E g = Inr (b, bu)"
    by (cases "board_at_end E g") (auto simp add: to_console_def Let_def)
  from assms ps mt ge be obtain rest where
    out: "out = header_line g @ nl @ players_summary g pw pb sw sb @ rest"
    by (cases "rev (move_stack b)") (auto simp add: to_console_def Let_def)
  from game_ending_scores [OF ge] have sc: "(sw, sb) = scores_of (winner g)" .
  obtain pre post where "players_summary g pw pb sw sb = pre @ score_line (sw, sb) @ post"
    using players_summary_score by blast
  with out sc have
    "out = (header_line g @ nl @ pre) @ score_line (scores_of (winner g)) @ (post @ rest)"
    by simp
  then show ?thesis by blast
qed


text \<open>
  C3. With a winner, a status outside the five of the table raises KeyError where the
  result line is built; there is no phrase to fall back on. Here the status is
  \<open>timeout\<close>, and \<open>N/A\<close> (the default the parser gives a record without status),
  for any game and any winner.
\<close>

theorem result_line_unmapped_status:
  "game_ending_info (g\<lparr>winner := Some c, status := ''timeout''\<rparr>) = Inl KeyError
   \<and> game_ending_info (g\<lparr>winner := Some c, status := ''N/A''\<rparr>) = Inl KeyError
   \<and> to_console E (g\<lparr>players := [pw, pb], moves := [], winner := Some c,
                      status := ''timeout''\<rparr>) = Inl KeyError"
  by (simp add: to_console_def game_ending_info_def pretty_endings_def Let_def)

subsection \<open>Phase boundaries\<close>

text \<open>
  C2. A boundary at ply 40 is rendered as move 21 of black, a boundary at ply 1 as
  move 1 of white, and a boundary at ply 0 is not rendered at all.
\<close>

theorem phase_line_sides:
  "phase_info \<lparr>middle = Some 40, end_ply = None\<rparr>
     = ''Middlegame started at move 21 (black)'' @ nl
   \<and> phase_info \<lparr>middle = Some 1, end_ply = None\<rparr>
     = ''Middlegame started at move 1 (white)'' @ nl
   \<and> phase_info \<lparr>middle = Some 0, end_ply = None\<rparr> = []"
  by code_simp

subsection \<open>A game without moves\<close>

lemma add_legend_error: "add_legend s = Inl e \<Longrightarrow> e = IndexError"
  by (auto simp: add_legend_def Let_def split: if_splits)

text \<open>
  C4. For a game with two players, no winner and no moves the replay leaves the new
  board, with its empty move stack, as it is; the renderer then raises IndexError, for
  it reads the last move of that stack. This holds for every engine.
\<close>

theorem no_moves_raises:
  "replay E (new_board E) [] = Inr (new_board E)
   \<and> move_stack (new_board E) = []
   \<and> to_console E (g\<lparr>players := [pw, pb], winner := None, moves := []\<rparr>) = Inl IndexError"
proof -
  have "to_console E (g\<lparr>players := [pw, pb], winner := None, moves := []\<rparr>) = Inl IndexError"
  proof (cases "add_legend (unicode_board (board_text E (start_position E)))")
    case (Inl e)
    then show ?thesis
      using add_legend_error [OF Inl]
      by (simp add: to_console_def game_ending_info_def board_at_end_def new_board_def Let_def)
  next
    case (Inr s)
    then show ?thesis
      by (simp add: to_console_def game_ending_info_def board_at_end_def new_board_def Let_def)
  qed
  then show ?thesis by (simp add: new_board_def)
qed

subsection \<open>A rendered sample\<close>

lemma sample_legend: "\<exists>s. add_legend (unicode_board (join nl (replicate 8 ''.''))) = Inr s"
  by (simp add: add_legend_def unicode_board_def replace_chr_def nl_def numeral_eq_Suc Let_def)

lemma sample_env_renders:
  assumes ps: "players g = [pw, pb]" and mv: "moves g = [(Some m, None)]"
    and san: "san m \<noteq> []" and ge: "game_ending_info g = Inr (sw, sb, txt)"
  shows "\<exists>out. to_console sample_env g = Inr out"
proof -
  obtain s where s: "add_legend (unicode_board (join nl (replicate 8 ''.''))) = Inr s"
    using sample_legend by blast
  have rp: "replay sample_env (new_board sample_env) (moves g)
              = Inr \<lparr>position = Suc 0, move_stack = [san m]\<rparr>"
    using mv san by (simp add: push_san_def new_board_def sample_env_def)
  have bt: "board_text sample_env (Suc 0) = join nl (replicate 8 ''.'')"
    by (simp add: sample_env_def)
  have mt: "moves_txt sample_env (has_analysis g) 1 (moves g)
              = Inr (move_line sample_env (has_analysis g) 1 m None)"
    using mv by simp
  show ?thesis
    using s ps rp bt mt ge
    by (simp add: to_console_def board_at_end_def Let_def)
qed



subsection \<open>What a parsed game holds\<close>

lemma create_game_Inr:
  assumes "create_game_from_json j = Inr g"
  shows "\<exists>pw pb ms op ck dv gid rt va sp st w.
           parse_player (analysis_flag j) WHITE j = Inr pw
         \<and> parse_player (analysis_flag j) BLACK j = Inr pb
         \<and> parse_moves (analysis_flag j) j = Inr ms
         \<and> parse_opening j = Inr op
         \<and> parse_clock j = Inr ck
         \<and> parse_division j = Inr dv
         \<and> py_get j ''id'' (JStr ''N/A'') = Inr gid
         \<and> py_get j ''rated'' (JBool True) = Inr rt
         \<and> py_get j ''variant'' (JStr ''N/A'') = Inr va
         \<and> py_get j ''speed'' (JStr ''N/A'') = Inr sp
         \<and> py_get j ''status'' (JStr ''N/A'') = Inr st
         \<and> py_get j ''winner'' (JStr []) = Inr w
         \<and> g = \<lparr>raw_game_id = gid, raw_rated = rt, raw_variant = va, raw_speed = sp,
                 raw_perf = [], raw_created_at = - 1, raw_last_move_at = - 1,
                 raw_status = st, raw_source = [], raw_players = [pw, pb],
                 raw_winner = parse_winner w, raw_moves = ms, raw_clock = ck,
                 raw_division = dv, raw_game_opening = op,
                 raw_has_analysis = analysis_flag j\<rparr>"
  using assms unfolding create_game_from_json_def Let_def andthen_eq_Inr
  by blast

lemma create_game_winner:
  assumes "create_game_from_json j = Inr g"
  shows "\<exists>w. py_get j ''winner'' (JStr []) = Inr w \<and> raw_winner g = parse_winner w"
  using create_game_Inr [OF assms] by auto

lemma create_game_moves:
  assumes "create_game_from_json j = Inr g"
  shows "parse_moves (analysis_flag j) j = Inr (raw_moves g)"
    "raw_has_analysis g = analysis_flag j"
  using create_game_Inr [OF assms] by auto

lemma getitem_get: "py_getitem j k = Inr v \<Longrightarrow> py_get j k d = Inr v"
  by (cases j) (auto split: option.splits)

lemma sample_flag:
  "analysis_flag (sample_record ''e4'' [JInt 30000] [(''status'', JStr ''draw''), (''winner'', JStr ''White'')]) = False"
  by (simp add: analysis_flag_def sample_record_def sample_player_def quote_def escape_chr_def
      str_int_def str_nat.simps)

lemma sample_parses:
  "create_game_from_json (sample_record ''e4'' [JInt 30000] [(''status'', JStr ''draw''), (''winner'', JStr ''White'')])
   = Inr sample_parsed"
  unfolding create_game_from_json_def sample_flag Let_def
  by (simp add: sample_record_def sample_player_def parse_player_def player_game_analysis_def
      parse_moves_def make_move_def thinking_time_cs_def parse_move_analysis_def
      parse_opening_def parse_clock_def parse_division_def parse_winner_def sample_parsed_def)

lemma sample_parsed_typed: "game_typed sample_parsed"
  by (simp add: game_typed_def sample_parsed_def player_typed_def pair_typed_def move_typed_def
      clock_typed_def division_typed_def opening_typed_def PlayerGameAnalysis_raw_default_def
      MoveAnalysis_raw_default_def)

subsection \<open>The move pairs\<close>

lemma split_on_nonempty: "split_on c s \<noteq> []"
  by (induction s) (auto split: list.splits)

lemma plies_of_append: "plies_of (xs @ ys) = plies_of xs @ plies_of ys"
  by (induction xs) (auto split: option.splits)

lemma make_move_san: "make_move f cl an idx s = Inr m \<Longrightarrow> raw_san m = s"
  by (auto simp: make_move_def andthen_eq_Inr)

lemma moves_loop_inv:
  assumes "moves_loop f cl an idx sans c mw ms = Inr (mw', ms')"
    and "(c = WHITE) = (mw = None)"
    and "list_all full_pair ms"
  shows "list_all full_pair ms'
       \<and> map (map_option raw_san) (plies_of ms' @ pending mw')
           = map (map_option raw_san) (plies_of ms @ pending mw) @ map Some sans
       \<and> 2 * length ms' + length (pending mw') = 2 * length ms + length (pending mw) + length sans"
  using assms
proof (induction sans arbitrary: idx c mw ms)
  case Nil
  then show ?case by simp
next
  case (Cons s rest)
  from Cons.prems(1) obtain m where m: "make_move f cl an idx s = Inr m"
    by (cases "make_move f cl an idx s") simp_all
  have sm: "raw_san m = s" using make_move_san [OF m] .
  show ?case
  proof (cases "c = WHITE")
    case True
    with Cons.prems(2) have mwN: "mw = None" by simp
    from Cons.prems(1) m True
    have step: "moves_loop f cl an (Suc idx) rest BLACK (Some m) ms = Inr (mw', ms')" by simp
    from Cons.IH [OF step _ Cons.prems(3)] sm mwN show ?thesis by simp
  next
    case False
    with Cons.prems(2) obtain w where mwS: "mw = Some w" by (cases mw) auto
    from Cons.prems(1) m False
    have step: "moves_loop f cl an (Suc idx) rest WHITE None (ms @ [(mw, Some m)]) = Inr (mw', ms')"
      by simp
    have "full_pair (mw, Some m)" using mwS by (simp add: full_pair_def)
    with Cons.prems(3) have full: "list_all full_pair (ms @ [(mw, Some m)])" by simp
    from Cons.IH [OF step _ full] sm mwS show ?thesis
      by (simp add: plies_of_append)
  qed
qed

lemma parse_moves_shape:
  assumes "parse_moves f j = Inr ms" and "py_getitem j ''moves'' = Inr (JStr s)"
  shows "length ms = (length (split_on CHR '' '' s) + 1) div 2"
    and "list_all (\<lambda>p. fst p \<noteq> None) ms"
    and "map (map_option raw_san) (plies_of ms) = map Some (split_on CHR '' '' s)"
    and "(snd (last ms) = None) = odd (length (split_on CHR '' '' s))"
proof -
  let ?sans = "split_on CHR '' '' s"
  from assms obtain cl an mw ms0 where
    loop: "moves_loop f cl an 0 ?sans WHITE None [] = Inr (mw, ms0)"
    and fin: "ms = (case mw of Some w \<Rightarrow> ms0 @ [(Some w, None)] | None \<Rightarrow> ms0)"
    by (auto simp: parse_moves_def andthen_eq_Inr split: option.splits)
  from moves_loop_inv [OF loop] have
    full: "list_all full_pair ms0"
    and pl: "map (map_option raw_san) (plies_of ms0 @ pending mw) = map Some ?sans"
    and len: "2 * length ms0 + length (pending mw) = length ?sans"
    by simp_all
  have ne: "?sans \<noteq> []" by (rule split_on_nonempty)
  show "length ms = (length ?sans + 1) div 2"
    using fin len by (cases mw) auto
  show "list_all (\<lambda>p. fst p \<noteq> None) ms"
    using fin full by (cases mw) (auto simp: full_pair_def list_all_iff)
  show "map (map_option raw_san) (plies_of ms) = map Some ?sans"
    using fin pl by (cases mw) (auto simp: plies_of_append)
  show "(snd (last ms) = None) = odd (length ?sans)"
  proof (cases mw)
    case None
    with len ne have "ms0 \<noteq> []" by auto
    then have "last ms0 \<in> set ms0" by simp
    with full have "snd (last ms0) \<noteq> None" by (auto simp: full_pair_def list_all_iff)
    with None fin len show ?thesis by (auto simp flip: len)
  next
    case (Some w)
    with fin len show ?thesis by (auto simp flip: len)
  qed
qed

text \<open>
  The shape of the move list. For a record the parser accepts, with N the number of
  parts of the move string between single spaces (there is always at least one), the
  move list has \<open>(N + 1) div 2\<close> pairs, every pair holds a white move in the first
  place, the pairs read in order (white, then black) give the parts in the order of the
  record, and the last pair has no black move exactly when N is odd.
\<close>

lemma move_pairs_shape:
  assumes "create_game_from_json j = Inr g" and "py_getitem j ''moves'' = Inr (JStr s)"
  shows "length (raw_moves g) = (length (split_on CHR '' '' s) + 1) div 2
       \<and> list_all (\<lambda>p. fst p \<noteq> None) (raw_moves g)
       \<and> map (map_option raw_san) (plies_of (raw_moves g)) = map Some (split_on CHR '' '' s)
       \<and> (snd (last (raw_moves g)) = None) = odd (length (split_on CHR '' '' s))"
  using parse_moves_shape [OF create_game_moves(1) [OF assms(1)] assms(2)]
  by simp

lemma sample3_flag:
  "analysis_flag (sample_record ''e4 e5 Nf3'' [JInt 30000, JInt 30000, JInt 29500] []) = False"
  by (simp add: analysis_flag_def sample_record_def sample_player_def quote_def escape_chr_def
      str_int_def str_nat.simps)

lemma sample3_parses:
  "\<exists>g. create_game_from_json
          (sample_record ''e4 e5 Nf3'' [JInt 30000, JInt 30000, JInt 29500] []) = Inr g"
  unfolding create_game_from_json_def sample3_flag Let_def
  by (simp add: sample_record_def sample_player_def parse_player_def player_game_analysis_def
      parse_moves_def make_move_def thinking_time_cs_def parse_move_analysis_def py_sub_def
      parse_opening_def parse_clock_def parse_division_def)

lemma move_pairs_shape_sample:
  "\<exists>g. create_game_from_json
          (sample_record ''e4 e5 Nf3'' [JInt 30000, JInt 30000, JInt 29500] []) = Inr g
     \<and> length (raw_moves g) = 2
     \<and> map (map_option raw_san) (plies_of (raw_moves g)) = [Some ''e4'', Some ''e5'', Some ''Nf3'']
     \<and> snd (last (raw_moves g)) = None"
proof -
  let ?j = "sample_record ''e4 e5 Nf3'' [JInt 30000, JInt 30000, JInt 29500] []"
  obtain g where g: "create_game_from_json ?j = Inr g"
    using sample3_parses by blast
  have m: "py_getitem ?j ''moves'' = Inr (JStr ''e4 e5 Nf3'')"
    by (simp add: sample_record_def)
  have sp: "split_on CHR '' '' ''e4 e5 Nf3'' = [''e4'', ''e5'', ''Nf3'']"
    by simp
  from move_pairs_shape [OF g m] show ?thesis
    using g unfolding sp by auto
qed

lemma empty_moves_flag: "analysis_flag (sample_record [] [JInt 30000] []) = False"
  by (simp add: analysis_flag_def sample_record_def sample_player_def quote_def escape_chr_def
      str_int_def str_nat.simps)

lemma empty_clocks_flag: "analysis_flag (sample_record [] [] []) = False"
  by (simp add: analysis_flag_def sample_record_def sample_player_def quote_def escape_chr_def
      str_int_def str_nat.simps)

lemma empty_moves_list:
  "parse_moves False (sample_record [] [JInt 30000] [])
   = Inr [(Some \<lparr>raw_san = [], raw_clock_centosec = JInt 30000,
                 raw_thinking_time_centoseconds = 0,
                 raw_analysis = MoveAnalysis_raw_default\<rparr>, None)]"
  by (simp add: parse_moves_def sample_record_def make_move_def thinking_time_cs_def
      parse_move_analysis_def)

lemma empty_moves_parses:
  "\<exists>g. create_game_from_json (sample_record [] [JInt 30000] []) = Inr g"
  unfolding create_game_from_json_def empty_moves_flag Let_def
  by (simp add: sample_record_def sample_player_def parse_player_def player_game_analysis_def
      parse_moves_def make_move_def thinking_time_cs_def parse_move_analysis_def
      parse_opening_def parse_clock_def parse_division_def)

text \<open>
  C7. The record of a game without a move (an empty move string), with one clock
  sample, is accepted, and its move list holds one pair: a white move with the empty
  notation and no black move. With N = 0 plies the list should be empty. With an empty
  list of clock samples the same record is not accepted: the parser raises IndexError
  where it reads the clock sample of that move.
\<close>

theorem empty_move_string_one_pair:
  "(\<exists>g. create_game_from_json (sample_record [] [JInt 30000] []) = Inr g
        \<and> raw_moves g
            = [(Some \<lparr>raw_san = [], raw_clock_centosec = JInt 30000,
                      raw_thinking_time_centoseconds = 0,
                      raw_analysis = MoveAnalysis_raw_default\<rparr>, None)]
        \<and> length (raw_moves g) = 1)
   \<and> create_game_from_json (sample_record [] [] []) = Inl IndexError"
proof -
  let ?j = "sample_record [] [JInt 30000] []"
  obtain g where g: "create_game_from_json ?j = Inr g"
    using empty_moves_parses by blast
  have "parse_moves (analysis_flag ?j) ?j = Inr (raw_moves g)"
    using g by (rule create_game_moves(1))
  then have "parse_moves False ?j = Inr (raw_moves g)"
    by (simp only: empty_moves_flag)
  then have mg: "raw_moves g
            = [(Some \<lparr>raw_san = [], raw_clock_centosec = JInt 30000,
                      raw_thinking_time_centoseconds = 0,
                      raw_analysis = MoveAnalysis_raw_default\<rparr>, None)]"
    by (simp only: empty_moves_list sum.inject)
  then have len: "length (raw_moves g) = 1" by simp
  have e: "create_game_from_json (sample_record [] [] []) = Inl IndexError"
    unfolding create_game_from_json_def empty_clocks_flag Let_def
    by (simp add: sample_record_def sample_player_def parse_player_def player_game_analysis_def
        parse_moves_def make_move_def thinking_time_cs_def parse_move_analysis_def)
  from g mg len e show ?thesis
    by - (intro conjI exI, assumption+)
qed

subsection \<open>The analysis flag\<close>

lemma startswith_iff: "startswith s p \<longleftrightarrow> (\<exists>b. s = p @ b)"
  by (induction s p rule: startswith.induct) auto

lemma contains_iff: "contains p s \<longleftrightarrow> (\<exists>a b. s = a @ p @ b)"
proof (induction s)
  case Nil
  then show ?case by auto
next
  case (Cons c cs)
  show ?case
  proof
    assume "contains p (c # cs)"
    then consider "startswith (c # cs) p" | "contains p cs" by auto
    then show "\<exists>a b. c # cs = a @ p @ b"
    proof cases
      case 1
      then obtain b where "c # cs = p @ b" using startswith_iff by blast
      then have "c # cs = [] @ p @ b" by simp
      then show ?thesis by blast
    next
      case 2
      with Cons.IH obtain a b where "cs = a @ p @ b" by blast
      then have "c # cs = (c # a) @ p @ b" by simp
      then show ?thesis by blast
    qed
  next
    assume "\<exists>a b. c # cs = a @ p @ b"
    then obtain a b where ab: "c # cs = a @ p @ b" by blast
    show "contains p (c # cs)"
    proof (cases a)
      case Nil
      with ab have "startswith (c # cs) p" using startswith_iff by auto
      then show ?thesis by simp
    next
      case (Cons x xs)
      with ab have "cs = xs @ p @ b" by simp
      with Cons.IH have "contains p cs" by blast
      then show ?thesis by simp
    qed
  qed
qed

lemma join_elem: "x \<in> set xs \<Longrightarrow> \<exists>a b. join sep xs = a @ x @ b"
proof (induction sep xs rule: join.induct)
  case (1 sep)
  then show ?case by simp
next
  case (2 sep y)
  then have "join sep [y] = [] @ x @ []" by simp
  then show ?case by blast
next
  case (3 sep y z zs)
  show ?case
  proof (cases "x = y")
    case True
    then have "join sep (y # z # zs) = [] @ x @ (sep @ join sep (z # zs))" by simp
    then show ?thesis by blast
  next
    case False
    with 3 obtain a b where "join sep (z # zs) = a @ x @ b" by auto
    then have "join sep (y # z # zs) = (y @ sep @ a) @ x @ b" by simp
    then show ?thesis by blast
  qed
qed

lemma has_key_dumps: "has_key k j \<Longrightarrow> \<exists>a b. dumps j = a @ quote k @ b"
proof (induction j)
  case (JArr xs)
  then obtain x where x: "x \<in> set xs" "has_key k x"
    by (auto simp: list_ex_iff)
  with JArr.IH obtain a b where ab: "dumps x = a @ quote k @ b" by blast
  from x(1) have "dumps x \<in> set (map dumps xs)" by simp
  from join_elem [OF this] obtain c d where "join '', '' (map dumps xs) = c @ dumps x @ d"
    by blast
  with ab have "dumps (JArr xs) = (''['' @ c @ a) @ quote k @ (b @ d @ '']'')" by simp
  then show ?case by blast
next
  case (JObj kvs)
  let ?f = "\<lambda>kv. quote (fst kv) @ '': '' @ snd kv"
  let ?items = "map ?f (map (map_prod id dumps) kvs)"
  from JObj.prems consider (key) v where "(k, v) \<in> set kvs"
    | (sub) k' v where "(k', v) \<in> set kvs" "has_key k v"
    by (auto simp: list_ex_iff)
  then obtain item a b where item: "item \<in> set ?items" "item = a @ quote k @ b"
  proof cases
    case key
    then have "?f (k, dumps v) \<in> set ?items" by force
    moreover have "?f (k, dumps v) = [] @ quote k @ ('': '' @ dumps v)" by simp
    ultimately show ?thesis using that by blast
  next
    case sub
    then have "v \<in> Basic_BNFs.snds (k', v)" by simp
    from JObj.IH [OF sub(1) this sub(2)] obtain a b where "dumps v = a @ quote k @ b" by blast
    then have "?f (k', dumps v) = (quote k' @ '': '' @ a) @ quote k @ b" by simp
    moreover from sub(1) have "?f (k', dumps v) \<in> set ?items" by force
    ultimately show ?thesis using that by blast
  qed
  from join_elem [OF item(1)] obtain c d where "join '', '' ?items = c @ item @ d" by blast
  with item(2) have "dumps (JObj kvs) = (''{'' @ c @ a) @ quote k @ (b @ d @ ''}'')" by simp
  then show ?case by blast
qed simp_all

text \<open>
  The flag of a record that has an analysis field. A record in which a field named
  \<open>analysis\<close> is reachable, at the top level or inside any dict or list, has its
  analysis flag set.
\<close>

lemma analysis_key_sets_flag: "has_key ''analysis'' j \<Longrightarrow> analysis_flag j"
proof -
  assume "has_key ''analysis'' j"
  from has_key_dumps [OF this] obtain a b where "dumps j = a @ quote ''analysis'' @ b" by blast
  moreover have "quote ''analysis'' = [CHR 0x22] @ ''analysis'' @ [CHR 0x22]"
    by (simp add: quote_def escape_chr_def)
  ultimately have "dumps j = (a @ [CHR 0x22]) @ ''analysis'' @ ([CHR 0x22] @ b)" by simp
  then show ?thesis unfolding analysis_flag_def contains_iff by blast
qed

lemma analysis_key_sets_flag_sample:
  "has_key ''analysis'' (sample_record ''e4'' [JInt 30000]
      [(''analysis'', JArr [JObj [(''eval'', JInt 30)]])])
   \<and> analysis_flag (sample_record ''e4'' [JInt 30000]
      [(''analysis'', JArr [JObj [(''eval'', JInt 30)]])])"
proof -
  let ?j = "sample_record ''e4'' [JInt 30000] [(''analysis'', JArr [JObj [(''eval'', JInt 30)]])]"
  have k: "has_key ''analysis'' ?j"
    by (simp add: sample_record_def sample_player_def)
  from analysis_key_sets_flag [OF k] k show ?thesis by simp
qed

lemma text_flag: "analysis_flag (sample_record ''analysis'' [JInt 30000] [])"
  by (simp add: analysis_flag_def sample_record_def sample_player_def quote_def escape_chr_def
      str_int_def str_nat.simps)

lemma fan_flag: "analysis_flag fan_record"
  by (simp add: analysis_flag_def fan_record_def sample_player_def quote_def escape_chr_def
      str_int_def str_nat.simps)

text \<open>
  C5. Two records of one ply without any analysis field: one whose move text is the
  word \<open>analysis\<close>, and one whose white player is named \<open>analysisfan\<close>. Neither has
  a field named \<open>analysis\<close> anywhere, yet for both the parser sets the analysis flag,
  since the word occurs in the serialised record, and then raises TypeError where it
  takes the length of the analysis list, which is \<open>None\<close>. The flag should be false
  and the record be parsed.
\<close>

theorem flag_from_text:
  "analysis_flag (sample_record ''analysis'' [JInt 30000] [])
   \<and> \<not> has_key ''analysis'' (sample_record ''analysis'' [JInt 30000] [])
   \<and> create_game_from_json (sample_record ''analysis'' [JInt 30000] []) = Inl TypeError
   \<and> analysis_flag fan_record
   \<and> \<not> has_key ''analysis'' fan_record
   \<and> create_game_from_json fan_record = Inl TypeError"
proof -
  let ?j = "sample_record ''analysis'' [JInt 30000] []"
  have k: "\<not> has_key ''analysis'' ?j"
    by (simp add: sample_record_def sample_player_def)
  have p: "create_game_from_json ?j = Inl TypeError"
    unfolding create_game_from_json_def Let_def using text_flag
    by (simp add: sample_record_def sample_player_def parse_player_def player_game_analysis_def
        analysis_counter_def parse_moves_def make_move_def thinking_time_cs_def
        parse_move_analysis_def)
  have k': "\<not> has_key ''analysis'' fan_record"
    by (simp add: fan_record_def sample_player_def)
  have p': "create_game_from_json fan_record = Inl TypeError"
    unfolding create_game_from_json_def Let_def using fan_flag
    by (simp add: fan_record_def sample_player_def parse_player_def player_game_analysis_def
        analysis_counter_def parse_moves_def make_move_def thinking_time_cs_def
        parse_move_analysis_def)
  from text_flag k p fan_flag k' p' show ?thesis by simp
qed

subsection \<open>Records without the opening, clock or division block\<close>

lemma blocks_flag: "analysis_flag (blocks_record [(''opening'', JObj []), (''clock'', JObj []), (''division'', JObj [])]) = False"
  by (simp add: analysis_flag_def blocks_record_def sample_player_def quote_def escape_chr_def
      str_int_def str_nat.simps)

lemma blocks_flag2: "analysis_flag (blocks_record [(''opening'', JObj []), (''clock'', JObj [])]) = False"
  by (simp add: analysis_flag_def blocks_record_def sample_player_def quote_def escape_chr_def
      str_int_def str_nat.simps)

lemma blocks_flag1: "analysis_flag (blocks_record [(''opening'', JObj [])]) = False"
  by (simp add: analysis_flag_def blocks_record_def sample_player_def quote_def escape_chr_def
      str_int_def str_nat.simps)

lemma blocks_flag0: "analysis_flag (blocks_record []) = False"
  by (simp add: analysis_flag_def blocks_record_def sample_player_def quote_def escape_chr_def
      str_int_def str_nat.simps)

lemma casual_flag: "analysis_flag casual_record = False"
  by (simp add: analysis_flag_def casual_record_def quote_def escape_chr_def
      str_int_def str_nat.simps)

lemma blocks_parsed:
  "create_game_from_json
     (blocks_record [(''opening'', JObj []), (''clock'', JObj []), (''division'', JObj [])])
   = Inr (sample_parsed
       \<lparr>raw_game_id := JStr ''N/A'', raw_status := JStr ''N/A'',
        raw_clock := \<lparr>raw_initial = JInt (- 1), raw_increment = JInt (- 1),
                       raw_total_time = JInt (- 1)\<rparr>,
        raw_game_opening := \<lparr>raw_eco = JStr [], raw_opening_name = JStr [],
                              raw_ply = JInt 0\<rparr>\<rparr>)"
  unfolding create_game_from_json_def blocks_flag Let_def
  by (simp add: blocks_record_def sample_player_def parse_player_def player_game_analysis_def
      parse_moves_def make_move_def thinking_time_cs_def parse_move_analysis_def
      parse_opening_def parse_clock_def parse_division_def parse_winner_def sample_parsed_def)

text \<open>
  C6. A record with the players, the move string and the clock samples, but without the
  opening, clock and division blocks, is not parsed with defaults: the parser raises
  KeyError where it reads the opening block, and likewise where it reads the clock
  block or the division block when only that one is missing. With the three blocks
  present and empty the same record is parsed, and every missing field takes its
  default. The record of a casual game, whose players have no rating change, raises
  KeyError where the parser reads \<open>ratingDiff\<close>, and a record without the players
  block raises KeyError as well.
\<close>

theorem missing_block_raises:
  "create_game_from_json (blocks_record []) = Inl KeyError
   \<and> create_game_from_json (blocks_record [(''opening'', JObj [])]) = Inl KeyError
   \<and> create_game_from_json (blocks_record [(''opening'', JObj []), (''clock'', JObj [])])
       = Inl KeyError
   \<and> (\<exists>g. create_game_from_json
             (blocks_record [(''opening'', JObj []), (''clock'', JObj []),
                             (''division'', JObj [])]) = Inr g
         \<and> raw_game_opening g
             = \<lparr>raw_eco = JStr [], raw_opening_name = JStr [], raw_ply = JInt 0\<rparr>
         \<and> raw_clock g
             = \<lparr>raw_initial = JInt (- 1), raw_increment = JInt (- 1),
                raw_total_time = JInt (- 1)\<rparr>
         \<and> raw_division g = \<lparr>raw_middle = JNull, raw_end_ply = JNull\<rparr>
         \<and> raw_game_id g = JStr ''N/A'' \<and> raw_rated g = JBool True
         \<and> raw_variant g = JStr ''N/A'' \<and> raw_speed g = JStr ''N/A''
         \<and> raw_status g = JStr ''N/A'' \<and> raw_winner g = None)
   \<and> create_game_from_json casual_record = Inl KeyError
   \<and> create_game_from_json (JObj [(''moves'', JStr ''e4''), (''clocks'', JArr [JInt 30000])])
       = Inl KeyError"
proof -
  have a: "create_game_from_json (blocks_record []) = Inl KeyError"
    unfolding create_game_from_json_def blocks_flag0 Let_def
    by (simp add: blocks_record_def sample_player_def parse_player_def player_game_analysis_def
        parse_moves_def make_move_def thinking_time_cs_def parse_move_analysis_def
        parse_opening_def)
  have b: "create_game_from_json (blocks_record [(''opening'', JObj [])]) = Inl KeyError"
    unfolding create_game_from_json_def blocks_flag1 Let_def
    by (simp add: blocks_record_def sample_player_def parse_player_def player_game_analysis_def
        parse_moves_def make_move_def thinking_time_cs_def parse_move_analysis_def
        parse_opening_def parse_clock_def)
  have c: "create_game_from_json (blocks_record [(''opening'', JObj []), (''clock'', JObj [])])
             = Inl KeyError"
    unfolding create_game_from_json_def blocks_flag2 Let_def
    by (simp add: blocks_record_def sample_player_def parse_player_def player_game_analysis_def
        parse_moves_def make_move_def thinking_time_cs_def parse_move_analysis_def
        parse_opening_def parse_clock_def parse_division_def)
  have d: "create_game_from_json (JObj [(''moves'', JStr ''e4''), (''clocks'', JArr [JInt 30000])])
             = Inl KeyError"
    by (simp add: create_game_from_json_def Let_def parse_player_def)
  have e: "create_game_from_json casual_record = Inl KeyError"
    unfolding create_game_from_json_def casual_flag Let_def
    by (simp add: casual_record_def parse_player_def player_game_analysis_def)
  show ?thesis
    using a b c d e by (simp add: blocks_parsed sample_parsed_def)
qed

subsection \<open>A winner that is neither white nor black\<close>

lemma to_console_result_line:
  assumes "to_console E g = Inr out" and ge: "game_ending_info g = Inr (sw, sb, ge)"
  shows "\<exists>pre post. out = pre @ ''*** '' @ ge @ '' ***'' @ nl @ post"
proof -
  from assms obtain pw pb where ps: "players g = [pw, pb]"
    by (auto simp: to_console_def split: list.splits)
  from assms ps obtain mt where mt: "moves_txt E (has_analysis g) 1 (moves g) = Inr mt"
    by (cases "moves_txt E (has_analysis g) 1 (moves g)") (simp_all add: to_console_def)
  from assms ps mt ge obtain b bu where be: "board_at_end E g = Inr (b, bu)"
    by (cases "board_at_end E g") (auto simp add: to_console_def Let_def)
  from assms ps mt ge be obtain x xs where rv: "rev (move_stack b) = x # xs"
    by (cases "rev (move_stack b)") (auto simp add: to_console_def Let_def)
  from assms ps mt ge be rv have
    "out = (header_line g @ nl @ players_summary g pw pb sw sb @ nl
            @ ''Opening: ['' @ eco (game_opening g) @ ''] '' @ opening_name (game_opening g)
            @ nl @ nl @ mt @ nl)
           @ ''*** '' @ ge @ '' ***'' @ nl
           @ (nl @ phase_info (division g) @ nl @ ''Final position:'' @ nl @ bu @ ''   ''
              @ ''GIF: https://lichess.org/export/fen.gif?fen=''
              @ quote_plus E (board_fen E (position b)) @ ''&lastMove='' @ x @ nl @ nl
              @ ''Game URL: https://lichess.org/'' @ game_id g @ nl @ nl)"
    by (simp add: to_console_def Let_def)
  then show ?thesis by blast
qed

text \<open>
  C10. A record whose winner field is a string other than \<open>white\<close> and \<open>black\<close> (the
  empty string and \<open>White\<close> among them) is parsed to a game without winner. When the
  fields of the parsed game have their annotated types, the renderer computes one half
  for each side and the result line of a game nobody won, and every report it returns
  for the game shows that score line and that result line.
\<close>

theorem other_winner_no_winner:
  assumes "create_game_from_json j = Inr r"
    and "py_getitem j ''winner'' = Inr (JStr w)"
    and "w \<noteq> ''white''" and "w \<noteq> ''black''"
  shows "raw_winner r = None
    \<and> (game_typed r \<longrightarrow>
         winner (read_game r) = None
         \<and> game_ending_info (read_game r)
             = Inr (half, half, ''The game ended with a '' @ capitalize (status (read_game r)))
         \<and> (to_console E (read_game r) = Inr out \<longrightarrow>
              (\<exists>pre post. out = pre @ score_line (half, half) @ post)
              \<and> (\<exists>pre post. out = pre @ ''*** The game ended with a ''
                                     @ capitalize (status (read_game r)) @ '' ***'' @ nl @ post)))"
proof -
  let ?g = "read_game r"
  from create_game_winner [OF assms(1)] getitem_get [OF assms(2)]
  have "raw_winner r = parse_winner (JStr w)" by auto
  with assms(3,4) have rw: "raw_winner r = None" by (simp add: parse_winner_def)
  then have w: "winner ?g = None" by (simp add: read_game_def)
  then have ge: "game_ending_info ?g
        = Inr (half, half, ''The game ended with a '' @ capitalize (status ?g))"
    by (simp add: game_ending_info_def)
  have sc: "scores_of (winner ?g) = (half, half)" using w by (simp add: scores_of_def)
  show ?thesis
    using rw w ge to_console_scores [of E ?g out] to_console_result_line [of E ?g out, OF _ ge] sc
    by auto
qed

lemma capitalize_draw: "capitalize ''draw'' = ''Draw''"
  by code_simp

theorem other_winner_no_winner_witness:
  "\<exists>r out pre post pre' post'.
     create_game_from_json (sample_record ''e4'' [JInt 30000]
        [(''status'', JStr ''draw''), (''winner'', JStr ''White'')]) = Inr r
     \<and> game_typed r
     \<and> raw_winner r = None
     \<and> winner (read_game r) = None
     \<and> game_ending_info (read_game r) = Inr (half, half, ''The game ended with a Draw'')
     \<and> to_console sample_env (read_game r) = Inr out
     \<and> out = pre @ score_line (half, half) @ post
     \<and> out = pre' @ ''*** The game ended with a Draw ***'' @ nl @ post'"
proof -
  let ?j = "sample_record ''e4'' [JInt 30000] [(''status'', JStr ''draw''), (''winner'', JStr ''White'')]"
  let ?g = "read_game sample_parsed"
  have wf: "py_getitem ?j ''winner'' = Inr (JStr ''White'')"
    by (simp add: sample_record_def)
  have st: "status ?g = ''draw''"
    by (simp add: read_game_def sample_parsed_def)
  obtain pw pb where ps: "players ?g = [pw, pb]"
    by (simp add: read_game_def sample_parsed_def)
  obtain m where m: "moves ?g = [(Some m, None)]" and san: "san m \<noteq> []"
    by (simp add: read_game_def sample_parsed_def read_pair_def read_move_def)
  have n1: "''White'' \<noteq> ''white''" and n2: "''White'' \<noteq> ''black''"
    by simp_all
  have rw: "raw_winner sample_parsed = None"
    by (rule other_winner_no_winner [OF sample_parses wf n1 n2, THEN conjunct1])
  note inst = other_winner_no_winner [OF sample_parses wf n1 n2, where E = sample_env,
      THEN conjunct2, THEN mp, OF sample_parsed_typed]
  have w: "winner ?g = None"
    using inst by simp
  have ge: "game_ending_info ?g = Inr (half, half, ''The game ended with a Draw'')"
    using inst st capitalize_draw by simp
  from sample_env_renders [OF ps m san ge] obtain out where
    out: "to_console sample_env ?g = Inr out" by blast
  obtain pre post where sc: "out = pre @ score_line (half, half) @ post"
    using inst [of out] out by auto
  obtain pre' post' where rl: "out = pre' @ ''*** The game ended with a Draw ***'' @ nl @ post'"
    using inst [of out] out st capitalize_draw by auto
  from sample_parses sample_parsed_typed rw w ge out sc rl show ?thesis
    by - (intro conjI exI, assumption+)
qed

subsection \<open>Thinking time\<close>

lemma sample3_moves:
  "parse_moves False (sample_record ''e4 e5 Nf3'' [JInt 30000, JInt 30000, JInt 29500] [])
   = Inr [(Some \<lparr>raw_san = ''e4'', raw_clock_centosec = JInt 30000,
                 raw_thinking_time_centoseconds = 0,
                 raw_analysis = MoveAnalysis_raw_default\<rparr>,
           Some \<lparr>raw_san = ''e5'', raw_clock_centosec = JInt 30000,
                 raw_thinking_time_centoseconds = 0,
                 raw_analysis = MoveAnalysis_raw_default\<rparr>),
          (Some \<lparr>raw_san = ''Nf3'', raw_clock_centosec = JInt 29500,
                 raw_thinking_time_centoseconds = - 500,
                 raw_analysis = MoveAnalysis_raw_default\<rparr>,
           None)]"
  by (simp add: parse_moves_def sample_record_def make_move_def thinking_time_cs_def
      parse_move_analysis_def py_sub_def)

text \<open>
  C1. For the clock samples 30000, 30000, 29500 the thinking time of ply 2 is
  \<open>clock[2] - clock[0] = -500\<close>, the later sample minus the earlier one, and this is
  the value the parsed game stores for the ply; the first two plies store 0.
\<close>

theorem thinking_time_sign:
  "thinking_time_cs (JArr [JInt 30000, JInt 30000, JInt 29500]) 2 = Inr (- 500)
   \<and> (\<exists>g. create_game_from_json
              (sample_record ''e4 e5 Nf3'' [JInt 30000, JInt 30000, JInt 29500] []) = Inr g
          \<and> map (map_option raw_thinking_time_centoseconds) (plies_of (raw_moves g))
              = [Some 0, Some 0, Some (- 500)])"
proof -
  let ?j = "sample_record ''e4 e5 Nf3'' [JInt 30000, JInt 30000, JInt 29500] []"
  have t: "thinking_time_cs (JArr [JInt 30000, JInt 30000, JInt 29500]) 2 = Inr (- 500)"
    by (simp add: thinking_time_cs_def py_sub_def)
  obtain g where g: "create_game_from_json ?j = Inr g"
    using sample3_parses by blast
  have "parse_moves (analysis_flag ?j) ?j = Inr (raw_moves g)"
    using g by (rule create_game_moves(1))
  then have "parse_moves False ?j = Inr (raw_moves g)"
    by (simp only: sample3_flag)
  then have mg: "raw_moves g =
         [(Some \<lparr>raw_san = ''e4'', raw_clock_centosec = JInt 30000,
                 raw_thinking_time_centoseconds = 0,
                 raw_analysis = MoveAnalysis_raw_default\<rparr>,
           Some \<lparr>raw_san = ''e5'', raw_clock_centosec = JInt 30000,
                 raw_thinking_time_centoseconds = 0,
                 raw_analysis = MoveAnalysis_raw_default\<rparr>),
          (Some \<lparr>raw_san = ''Nf3'', raw_clock_centosec = JInt 29500,
                 raw_thinking_time_centoseconds = - 500,
                 raw_analysis = MoveAnalysis_raw_default\<rparr>,
           None)]"
    by (simp only: sample3_moves sum.inject)
  have m: "map (map_option raw_thinking_time_centoseconds) (plies_of (raw_moves g))
              = [Some 0, Some 0, Some (- 500)]"
    by (simp add: mg)
  show ?thesis
    using t g m by - (intro conjI exI, assumption+)
qed

end
